theory Spec2Isabelle
  imports Complex_Main "HOL-Library.AList" "HOL-Library.Multiset"
begin

chapter \<open>The model\<close>

text \<open>
  Conventions. A Go \<^verbatim>\<open>string\<close> is a sequence of bytes and is modelled by \<^typ>\<open>string\<close>
  (a list of 8-bit characters). Go's \<^verbatim>\<open>int\<close>, \<^verbatim>\<open>int32\<close> and \<^verbatim>\<open>int64\<close> values are modelled by
  \<^typ>\<open>int\<close>. The counters of the program (reference counts, chunk counters, map sizes)
  change by one per step and stay far from \<open>2 ^ 63\<close> in any run, and so do the sums the
  program forms from them; where a value is narrowed (\<^verbatim>\<open>int32(...)\<close>) or a duration
  saturates, that is written out. A \<^verbatim>\<open>time.Time\<close> is an instant, modelled by an \<^typ>\<open>int\<close>
  count of nanoseconds. Go's \<^verbatim>\<open>float64\<close> values are modelled by \<^typ>\<open>real\<close>: the functions
  below only copy them, compare them with the constants \<open>0\<close> and \<open>-1\<close>, or hand them to the
  native library, and no statement proved here depends on rounding. Every panic and
  every error return of the source is a value of the model; the answers of the native
  library, of the clock and of the Go scheduler are inputs of the model.
\<close>

type_synonym float64 = real

section \<open>Catalog numbers (package gc, \<^verbatim>\<open>parseSatNum\<close>)\<close>

definition byteOf :: "char \<Rightarrow> nat" where
  "byteOf c = of_char c"

subsection \<open>\<^verbatim>\<open>strings.TrimSpace\<close> of the Go standard library\<close>

text \<open>
  \<^verbatim>\<open>TrimSpace\<close> removes leading and trailing white space as Unicode defines it. On a byte
  string these are the six ASCII bytes below and the UTF-8 encodings of U+0085, U+00A0,
  U+1680, U+2000..U+200A, U+2028, U+2029, U+202F, U+205F and U+3000 (two or three bytes
  each). Bytes that do not decode to one of these code points are not white space.
\<close>

definition asciiSpace :: "char \<Rightarrow> bool" where
  "asciiSpace c \<longleftrightarrow> byteOf c \<in> {0x09, 0x0A, 0x0B, 0x0C, 0x0D, 0x20}"

definition space2 :: "char \<Rightarrow> char \<Rightarrow> bool" where
  "space2 a b \<longleftrightarrow> byteOf a = 0xC2 \<and> (byteOf b = 0x85 \<or> byteOf b = 0xA0)"

definition space3 :: "char \<Rightarrow> char \<Rightarrow> char \<Rightarrow> bool" where
  "space3 a b c \<longleftrightarrow>
     (byteOf a = 0xE1 \<and> byteOf b = 0x9A \<and> byteOf c = 0x80) \<or>
     (byteOf a = 0xE2 \<and> byteOf b = 0x80 \<and>
        (0x80 \<le> byteOf c \<and> byteOf c \<le> 0x8A \<or> byteOf c \<in> {0xA8, 0xA9, 0xAF})) \<or>
     (byteOf a = 0xE2 \<and> byteOf b = 0x81 \<and> byteOf c = 0x9F) \<or>
     (byteOf a = 0xE3 \<and> byteOf b = 0x80 \<and> byteOf c = 0x80)"

fun TrimLeftSpace :: "string \<Rightarrow> string" where
  "TrimLeftSpace (a # b # c # s) =
     (if asciiSpace a then TrimLeftSpace (b # c # s)
      else if space2 a b then TrimLeftSpace (c # s)
      else if space3 a b c then TrimLeftSpace s
      else a # b # c # s)"
| "TrimLeftSpace [a, b] =
     (if asciiSpace a then TrimLeftSpace [b]
      else if space2 a b then []
      else [a, b])"
| "TrimLeftSpace [a] = (if asciiSpace a then [] else [a])"
| "TrimLeftSpace [] = []"

text \<open>The same from the right end, on the reversed string.\<close>

fun TrimRightSpaceRev :: "string \<Rightarrow> string" where
  "TrimRightSpaceRev (c # b # a # s) =
     (if asciiSpace c then TrimRightSpaceRev (b # a # s)
      else if space2 b c then TrimRightSpaceRev (a # s)
      else if space3 a b c then TrimRightSpaceRev s
      else c # b # a # s)"
| "TrimRightSpaceRev [c, b] =
     (if asciiSpace c then TrimRightSpaceRev [b]
      else if space2 b c then []
      else [c, b])"
| "TrimRightSpaceRev [c] = (if asciiSpace c then [] else [c])"
| "TrimRightSpaceRev [] = []"

definition TrimSpace :: "string \<Rightarrow> string" where
  "TrimSpace s = rev (TrimRightSpaceRev (rev (TrimLeftSpace s)))"

subsection \<open>\<^verbatim>\<open>strconv.Atoi\<close> of the Go standard library\<close>

text \<open>
  \<^verbatim>\<open>Atoi\<close> accepts an optional sign \<^verbatim>\<open>+\<close> or \<^verbatim>\<open>-\<close> followed by one or more decimal digits
  and fails on anything else, and on values outside the 64-bit range. \<open>None\<close> stands for
  a non-nil \<^verbatim>\<open>err\<close>.
\<close>

definition isDigit :: "char \<Rightarrow> bool" where
  "isDigit ch \<longleftrightarrow> 48 \<le> byteOf ch \<and> byteOf ch \<le> 57"

fun digitsValue :: "int \<Rightarrow> string \<Rightarrow> int" where
  "digitsValue n [] = n"
| "digitsValue n (ch # s) = digitsValue (n * 10 + (int (byteOf ch) - 48)) s"

definition Atoi :: "string \<Rightarrow> int option" where
  "Atoi s0 =
     (let s = (case s0 of
                 [] \<Rightarrow> []
               | c # cs \<Rightarrow> if c = CHR ''-'' \<or> c = CHR ''+'' then cs else s0)
      in if s = [] \<or> \<not> list_all isDigit s then None
         else let n = digitsValue 0 s;
                  v = (if hd s0 = CHR ''-'' then - n else n)
              in if - (2 ^ 63) \<le> v \<and> v < 2 ^ 63 then Some v else None)"

subsection \<open>\<^verbatim>\<open>parseSatNum\<close>\<close>

datatype satnum_error =
    InvalidLineLength           \<comment> \<open>"invalid TLE first line length"\<close>
  | InvalidSatnumLength string  \<comment> \<open>"invalid satnum length: %s"\<close>
  | InvalidFormat string        \<comment> \<open>"parse satNum: invalid format %q"\<close>

text \<open>
  \<^verbatim>\<open>l1[2:7]\<close> is \<open>take 5 (drop 2 l1)\<close>. After the length check \<open>s\<close> has five bytes, so
  \<^verbatim>\<open>s[0]\<close> and \<^verbatim>\<open>s[1:]\<close> are \<open>hd s\<close> and \<open>tl s\<close>. The byte arithmetic \<^verbatim>\<open>letter-'A'+10\<close> stays
  within 10..35 under the guard on \<open>letter\<close>.
\<close>

definition parseSatNum :: "string \<Rightarrow> satnum_error + int" where
  "parseSatNum l1 =
     (if length l1 < 7 then Inl InvalidLineLength
      else let s = TrimSpace (take 5 (drop 2 l1)) in
        if length s \<noteq> 5 then Inl (InvalidSatnumLength s)
        else case (case Atoi s of
                     Some n \<Rightarrow> if 1 \<le> n \<and> n \<le> 99999 then Some n else None
                   | None \<Rightarrow> None) of
               Some n \<Rightarrow> Inr n
             | None \<Rightarrow>
                 if length s = 5
                 then let letter = hd s; digits = tl s in
                   if byteOf CHR ''A'' \<le> byteOf letter \<and> byteOf letter \<le> byteOf CHR ''Z'' \<and>
                      letter \<noteq> CHR ''I'' \<and> letter \<noteq> CHR ''O''
                   then case Atoi digits of
                          Some num \<Rightarrow>
                            if 0 \<le> num \<and> num \<le> 9999
                            then let prefix = int (byteOf letter - byteOf CHR ''A'' + 10) * 10000;
                                     satnum = prefix + num
                                 in if 100000 \<le> satnum \<and> satnum \<le> 359999 then Inr satnum
                                    else Inl (InvalidFormat s)
                            else Inl (InvalidFormat s)
                        | None \<Rightarrow> Inl (InvalidFormat s)
                   else Inl (InvalidFormat s)
                 else Inl (InvalidFormat s))"

text \<open>The two formats the comments of \<^verbatim>\<open>parseSatNum\<close> name, as predicates on the five columns.\<close>

definition legacy5 :: "string \<Rightarrow> bool" where
  "legacy5 s \<longleftrightarrow> length s = 5 \<and> list_all isDigit s \<and> 1 \<le> digitsValue 0 s"

definition alpha5 :: "string \<Rightarrow> bool" where
  "alpha5 s \<longleftrightarrow> length s = 5 \<and>
     byteOf CHR ''A'' \<le> byteOf (hd s) \<and> byteOf (hd s) \<le> byteOf CHR ''Z'' \<and>
     hd s \<noteq> CHR ''I'' \<and> hd s \<noteq> CHR ''O'' \<and> list_all isDigit (tl s)"

definition alpha5Value :: "string \<Rightarrow> int" where
  "alpha5Value s = (int (byteOf (hd s)) - 65 + 10) * 10000 + digitsValue 0 (tl s)"

section \<open>The satellite registry (package gc)\<close>

record SatEntry =
  key :: int
  satNum :: int
  lastUsed :: int
  refs :: int

text \<open>
  \<^verbatim>\<open>loaded\<close> is a Go map from keys to entries. It is modelled by an association list: the
  order of the list stands for the order in which a \<^verbatim>\<open>range\<close> loop visits the map, which
  Go leaves unspecified, so no statement below depends on it. Every access to the map
  sits in a section between \<^verbatim>\<open>g.mu.Lock()\<close> and \<^verbatim>\<open>g.mu.Unlock()\<close> that does not wait for
  anything; each such section is one step of the model, and \<^verbatim>\<open>g.mu\<close> itself is not part of
  the state.
\<close>

record GC =
  loaded :: "(int \<times> SatEntry) list"
  maxLoaded :: int
  idleTTL :: int
  sweepInterval :: int

text \<open>
  \<^verbatim>\<open>NewGC\<close>. The defaults \<^verbatim>\<open>values.DefaultMaxLoadedSatsGc\<close>, \<^verbatim>\<open>values.DefaultIdleTTLGcMin\<close> and
  \<^verbatim>\<open>values.DefaultSweepIntervalGcMin\<close> belong to a package that is not part of the sources at
  hand and are parameters.
\<close>

definition NewGC :: "int \<Rightarrow> int \<Rightarrow> int \<Rightarrow> int \<Rightarrow> int \<Rightarrow> int \<Rightarrow> GC" where
  "NewGC DefaultMaxLoadedSatsGc DefaultIdleTTLGc DefaultSweepIntervalGc m ttl sweep =
     \<lparr> loaded = [],
       maxLoaded = (if m < 1 then DefaultMaxLoadedSatsGc else m),
       idleTTL = (if ttl \<le> 0 then DefaultIdleTTLGc else ttl),
       sweepInterval = (if sweep \<le> 0 then DefaultSweepIntervalGc else sweep) \<rparr>"

subsection \<open>Locks\<close>

text \<open>
  A \<^verbatim>\<open>sync.RWMutex\<close> of the table \<^verbatim>\<open>satLocks\<close> (\<^verbatim>\<open>core_helpers.RwFor\<close>): the number of read
  locks held and whether the write lock is held. A key that was never asked for has a
  fresh mutex, so the table is a total function. \<^verbatim>\<open>RLock\<close> can be taken when the write
  lock is free, \<^verbatim>\<open>Lock\<close> when nothing is held. (Go also makes \<^verbatim>\<open>RLock\<close> wait while a writer
  is waiting; that removes runs and adds none.) The Go runtime ends the process with a
  fatal error, which no \<^verbatim>\<open>recover\<close> can catch, on \<^verbatim>\<open>RUnlock\<close> of a mutex without readers
  and on \<^verbatim>\<open>Unlock\<close> of an unlocked mutex.
\<close>

record rwmutex =
  rw_readers :: nat
  rw_writer :: bool

text \<open>
  The registry together with the package-level variables it is used with: the lock
  table, the mutex \<^verbatim>\<open>catalogMu\<close>, and whether the process has been ended by a fatal error.
\<close>

record sys =
  gc :: GC
  satLocks :: "int \<Rightarrow> rwmutex"
  catalogMu :: bool
  fatal :: bool

definition canRLock :: "sys \<Rightarrow> int \<Rightarrow> bool" where
  "canRLock s k \<longleftrightarrow> \<not> rw_writer (satLocks s k)"

definition RLock :: "int \<Rightarrow> sys \<Rightarrow> sys" where
  "RLock k s =
     s\<lparr>satLocks := (satLocks s)(k := (satLocks s k)\<lparr>rw_readers := rw_readers (satLocks s k) + 1\<rparr>)\<rparr>"

definition RUnlock :: "int \<Rightarrow> sys \<Rightarrow> sys" where
  "RUnlock k s =
     (if rw_readers (satLocks s k) = 0 then s\<lparr>fatal := True\<rparr>
      else s\<lparr>satLocks := (satLocks s)(k := (satLocks s k)\<lparr>rw_readers := rw_readers (satLocks s k) - 1\<rparr>)\<rparr>)"

definition canLock :: "sys \<Rightarrow> int \<Rightarrow> bool" where
  "canLock s k \<longleftrightarrow> \<not> rw_writer (satLocks s k) \<and> rw_readers (satLocks s k) = 0"

definition Lock :: "int \<Rightarrow> sys \<Rightarrow> sys" where
  "Lock k s = s\<lparr>satLocks := (satLocks s)(k := (satLocks s k)\<lparr>rw_writer := True\<rparr>)\<rparr>"

definition Unlock :: "int \<Rightarrow> sys \<Rightarrow> sys" where
  "Unlock k s =
     (if rw_writer (satLocks s k)
      then s\<lparr>satLocks := (satLocks s)(k := (satLocks s k)\<lparr>rw_writer := False\<rparr>)\<rparr>
      else s\<lparr>fatal := True\<rparr>)"

definition catalogLock :: "sys \<Rightarrow> sys" where
  "catalogLock s = s\<lparr>catalogMu := True\<rparr>"

definition catalogUnlock :: "sys \<Rightarrow> sys" where
  "catalogUnlock s = (if catalogMu s then s\<lparr>catalogMu := False\<rparr> else s\<lparr>fatal := True\<rparr>)"

definition NewSys :: "GC \<Rightarrow> sys" where
  "NewSys g =
     \<lparr> gc = g, satLocks = (\<lambda>k. \<lparr>rw_readers = 0, rw_writer = False\<rparr>), catalogMu = False,
       fatal = False \<rparr>"

subsection \<open>Calls into the native library\<close>

text \<open>
  What one \<^verbatim>\<open>core_helpers.WithDllCall\<close> does, seen from the registry: either the context is
  done before a permit is obtained, or the native function runs and returns a value.
  The answers of the native library are inputs of the model.
\<close>

datatype 'a dllcall = CtxDone | DllRet 'a

datatype gc_error =
    ParseError satnum_error
  | Cancelled              \<comment> \<open>\<^verbatim>\<open>ctx.Err()\<close>\<close>
  | DllError int string    \<comment> \<open>"rc=%d: %s"\<close>

definition dllResult :: "string \<Rightarrow> 'a dllcall \<Rightarrow> ('a \<Rightarrow> int) \<Rightarrow> gc_error + 'a" where
  "dllResult msg c rcOf =
     (case c of
        CtxDone \<Rightarrow> Inl Cancelled
      | DllRet v \<Rightarrow> if rcOf v \<noteq> 0 then Inl (DllError (rcOf v) msg) else Inr v)"

record acquire_env =
  aq_now :: int                       \<comment> \<open>the reading of \<^verbatim>\<open>time.Now()\<close>\<close>
  aq_GetSatKey :: "int dllcall"       \<comment> \<open>\<^verbatim>\<open>TleGetSatKey\<close> in \<^verbatim>\<open>Acquire\<close>\<close>
  aq_GetSatKey2 :: "int dllcall"      \<comment> \<open>\<^verbatim>\<open>TleGetSatKey\<close> in \<^verbatim>\<open>addTLE\<close>\<close>
  aq_AddSatFrLines :: "int dllcall"   \<comment> \<open>\<^verbatim>\<open>TleAddSatFrLines\<close>\<close>
  aq_InitSat :: "int dllcall"         \<comment> \<open>\<^verbatim>\<open>Sgp4InitSat\<close>\<close>
  aq_LastErrMsg :: string             \<comment> \<open>\<^verbatim>\<open>GetLastErrMsg\<close>\<close>

definition addTLE :: "acquire_env \<Rightarrow> string \<Rightarrow> string \<Rightarrow> gc_error + int" where
  "addTLE env ln1 ln2 =
     (case parseSatNum ln1 of
        Inl e \<Rightarrow> Inl (ParseError e)
      | Inr sn \<Rightarrow>
          (case dllResult (aq_LastErrMsg env) (aq_GetSatKey2 env) (\<lambda>_. 0) of
             Inl e \<Rightarrow> Inl e
           | Inr existing \<Rightarrow>
               if existing \<noteq> - 1 then Inr existing
               else dllResult (aq_LastErrMsg env) (aq_AddSatFrLines env)
                      (\<lambda>k. if k \<le> 0 then 1 else 0)))"

subsection \<open>The sections under \<^verbatim>\<open>g.mu\<close>\<close>

text \<open>
  The section of \<^verbatim>\<open>Acquire\<close>, the same on the hit and on the miss path: a new entry with
  \<^verbatim>\<open>refs: 1\<close>, or \<^verbatim>\<open>e.refs++\<close> and a fresh \<^verbatim>\<open>lastUsed\<close>.
\<close>

definition countRef :: "GC \<Rightarrow> int \<Rightarrow> int \<Rightarrow> int \<Rightarrow> GC" where
  "countRef g k sn t =
     (case map_of (loaded g) k of
        None \<Rightarrow>
          g\<lparr>loaded := AList.update k \<lparr>key = k, satNum = sn, lastUsed = t, refs = 1\<rparr> (loaded g)\<rparr>
      | Some e \<Rightarrow>
          g\<lparr>loaded := AList.update k (e\<lparr>refs := refs e + 1, lastUsed := t\<rparr>) (loaded g)\<rparr>)"

text \<open>The section of the release closure: \<^verbatim>\<open>e.refs--\<close> and a fresh \<^verbatim>\<open>lastUsed\<close> when \<^verbatim>\<open>e.refs > 0\<close>.\<close>

definition releaseSection :: "int \<Rightarrow> int \<Rightarrow> GC \<Rightarrow> GC" where
  "releaseSection k t g =
     (case map_of (loaded g) k of
        Some e \<Rightarrow>
          if refs e > 0
          then g\<lparr>loaded := AList.update k (e\<lparr>refs := refs e - 1, lastUsed := t\<rparr>) (loaded g)\<rparr>
          else g
      | None \<Rightarrow> g)"

text \<open>The two sections of \<^verbatim>\<open>removeVictims\<close>: the re-check, and the \<^verbatim>\<open>delete\<close>.\<close>

definition shouldRemove :: "GC \<Rightarrow> int \<Rightarrow> bool" where
  "shouldRemove g k = (case map_of (loaded g) k of Some e \<Rightarrow> refs e = 0 | None \<Rightarrow> False)"

definition deleteEntry :: "int \<Rightarrow> GC \<Rightarrow> GC" where
  "deleteEntry k g = g\<lparr>loaded := AList.delete k (loaded g)\<rparr>"

text \<open>
  \<^verbatim>\<open>evictLRUIfNeeded\<close>, one section. A candidate is a pair of a key and its \<^verbatim>\<open>lastUsed\<close>.
  \<^verbatim>\<open>sort.Slice\<close> of the standard library is a parameter \<open>sortSlice\<close> that takes the \<^verbatim>\<open>less\<close>
  function; the source passes \<^verbatim>\<open>candidates[i].ts.Before(candidates[j].ts)\<close>.
\<close>

definition candidatesOf :: "GC \<Rightarrow> (int \<times> int) list" where
  "candidatesOf g = map (\<lambda>(k, e). (k, lastUsed e)) (filter (\<lambda>(k, e). refs e = 0) (loaded g))"

definition tsBefore :: "int \<times> int \<Rightarrow> int \<times> int \<Rightarrow> bool" where
  "tsBefore a b \<longleftrightarrow> snd a < snd b"

type_synonym sort_slice = "(int \<times> int \<Rightarrow> int \<times> int \<Rightarrow> bool) \<Rightarrow> (int \<times> int) list \<Rightarrow> (int \<times> int) list"

definition evictLRUIfNeeded :: "sort_slice \<Rightarrow> GC \<Rightarrow> int \<Rightarrow> int list" where
  "evictLRUIfNeeded sortSlice g need =
     (let excess = int (length (loaded g)) + need - maxLoaded g in
      if excess \<le> 0 then []
      else let candidates = candidatesOf g in
        if length candidates = 0 then []
        else let candidates' = sortSlice tsBefore candidates;
                 excess' = (if excess > int (length candidates')
                            then int (length candidates') else excess)
             in map fst (take (nat excess') candidates'))"

text \<open>
  What the documentation of \<^verbatim>\<open>sort.Slice\<close> promises: for a \<^verbatim>\<open>less\<close> that is a strict weak
  ordering, the result is a rearrangement of the input in which no element is less
  than an earlier one. The sort is not stable, so the order among elements that are
  not less than each other is left open.
\<close>

definition strictWeakOrder :: "('a \<Rightarrow> 'a \<Rightarrow> bool) \<Rightarrow> bool" where
  "strictWeakOrder lt \<longleftrightarrow>
     (\<forall>a. \<not> lt a a) \<and>
     (\<forall>a b c. lt a b \<and> lt b c \<longrightarrow> lt a c) \<and>
     (\<forall>a b c. \<not> lt a b \<and> \<not> lt b c \<longrightarrow> \<not> lt a c)"

definition sortSliceContract :: "sort_slice \<Rightarrow> bool" where
  "sortSliceContract sortSlice \<longleftrightarrow>
     (\<forall>lt xs. strictWeakOrder lt \<longrightarrow>
        mset (sortSlice lt xs) = mset xs \<and>
        sorted_wrt (\<lambda>a b. \<not> lt b a) (sortSlice lt xs))"

text \<open>
  The section of one tick of \<^verbatim>\<open>sweeper\<close> at time \<open>t\<close>. \<^verbatim>\<open>now.Sub(e.lastUsed)\<close> is a
  \<^verbatim>\<open>time.Duration\<close>, which saturates at the ends of the 64-bit range.
\<close>

definition timeSub :: "int \<Rightarrow> int \<Rightarrow> int" where
  "timeSub t u = max (- (2 ^ 63)) (min (2 ^ 63 - 1) (t - u))"

definition sweeperVictims :: "GC \<Rightarrow> int \<Rightarrow> int list" where
  "sweeperVictims g t =
     map fst (filter (\<lambda>(k, e). refs e = 0 \<and> timeSub t (lastUsed e) > idleTTL g) (loaded g))"

subsection \<open>The release closure\<close>

text \<open>
  The closure that \<^verbatim>\<open>makeReleaser key runlock\<close> returns, run at time \<open>t\<close>: the section under
  \<^verbatim>\<open>g.mu\<close>, then \<^verbatim>\<open>runlock()\<close> unless it is \<^verbatim>\<open>nil\<close>. \<^verbatim>\<open>Acquire\<close> passes the \<^verbatim>\<open>RUnlock\<close> of the
  key's mutex (\<open>Some k\<close>); the test helper \<^verbatim>\<open>TestReleaser\<close> passes \<^verbatim>\<open>nil\<close> (\<open>None\<close>).
\<close>

definition makeReleaser :: "int \<Rightarrow> int option \<Rightarrow> int \<Rightarrow> sys \<Rightarrow> sys" where
  "makeReleaser k runlock t s =
     (let s' = s\<lparr>gc := releaseSection k t (gc s)\<rparr>
      in case runlock of None \<Rightarrow> s' | Some k' \<Rightarrow> RUnlock k' s')"

subsection \<open>Goroutines\<close>

text \<open>
  The functions \<^verbatim>\<open>Acquire\<close> (with \<^verbatim>\<open>addOrInitSat\<close> and \<^verbatim>\<open>removeVictims\<close> inlined), the release
  closure and \<^verbatim>\<open>sweeper\<close> take and give back locks between their sections, so other
  goroutines can run in between. A goroutine is modelled by its position in the source
  and its local values; a step runs it up to its next operation on a lock or on the
  registry. Calls into the native library do not touch the modelled state and run as
  part of the step that follows them.

  \<^verbatim>\<open>RemoveAll\<close> and \<^verbatim>\<open>WaitAllReleased\<close> are called from nowhere in the server and are not part
  of the runs.

  \<open>ThenAdd sn\<close> and \<open>ThenSweep\<close> say where \<^verbatim>\<open>removeVictims\<close> was called from: \<^verbatim>\<open>Acquire\<close> (which
  goes on with \<^verbatim>\<open>addOrInitSat\<close>) or \<^verbatim>\<open>sweeper\<close> (which waits for the next tick).
\<close>

datatype caller = ThenAdd int | ThenSweep

datatype pc =
    AcqBegin                          \<comment> \<open>\<^verbatim>\<open>parseSatNum(l1)\<close>, then at \<^verbatim>\<open>catalogMu.Lock()\<close>\<close>
  | AcqLookup int                     \<comment> \<open>at \<^verbatim>\<open>WithDllCall(TleGetSatKey)\<close>\<close>
  | AcqHitRLock int int               \<comment> \<open>hit path, at \<^verbatim>\<open>mu.RLock()\<close>\<close>
  | AcqHitUnlock int int              \<comment> \<open>hit path, at \<^verbatim>\<open>catalogMu.Unlock()\<close>\<close>
  | AcqEvict int                      \<comment> \<open>miss path, at \<^verbatim>\<open>g.evictLRUIfNeeded(1)\<close>\<close>
  | RmLockKey caller "int list"       \<comment> \<open>\<^verbatim>\<open>removeVictims\<close>: at \<^verbatim>\<open>mu.Lock()\<close> of the next victim\<close>
  | RmLockCatalog caller int "int list"      \<comment> \<open>at \<^verbatim>\<open>catalogMu.Lock()\<close>\<close>
  | RmCheck caller int "int list"            \<comment> \<open>at the re-check section\<close>
  | RmDelete caller bool int "int list"      \<comment> \<open>after the re-check, with \<^verbatim>\<open>shouldRemove\<close>\<close>
  | RmUnlockCatalog caller int "int list"    \<comment> \<open>at \<^verbatim>\<open>catalogMu.Unlock()\<close>\<close>
  | RmUnlockKey caller int "int list"        \<comment> \<open>at \<^verbatim>\<open>mu.Unlock()\<close>\<close>
  | AddLockCatalog int                \<comment> \<open>\<^verbatim>\<open>addOrInitSat\<close>: at \<^verbatim>\<open>catalogMu.Lock()\<close>\<close>
  | AddTLE int                        \<comment> \<open>at \<^verbatim>\<open>g.addTLE(ctx, l1, l2)\<close>\<close>
  | AddLockKey int int                \<comment> \<open>at \<^verbatim>\<open>mu.Lock()\<close>\<close>
  | AddUnlockCatalog int int          \<comment> \<open>at \<^verbatim>\<open>catalogMu.Unlock()\<close>\<close>
  | AddInit int int                   \<comment> \<open>at \<^verbatim>\<open>Sgp4InitSat\<close> and the deferred \<^verbatim>\<open>mu.Unlock()\<close>\<close>
  | AcqMissRLock int int              \<comment> \<open>miss path, at \<^verbatim>\<open>mu.RLock()\<close>\<close>
  | AcqCount int int                  \<comment> \<open>at the section that counts the reference\<close>
  | Holding int                       \<comment> \<open>\<^verbatim>\<open>Acquire\<close> has returned the key and the closure\<close>
  | RelSection int                    \<comment> \<open>the closure: at its section\<close>
  | RelRunlock int                    \<comment> \<open>the closure: at \<^verbatim>\<open>runlock()\<close>\<close>
  | Released int                      \<comment> \<open>the closure has returned\<close>
  | Failed gc_error                   \<comment> \<open>\<^verbatim>\<open>Acquire\<close> has returned an error\<close>
  | SwWait                            \<comment> \<open>\<^verbatim>\<open>sweeper\<close>: waiting for the next tick\<close>

text \<open>
  \<open>th_releases\<close> is the number of times the goroutine will still call the release closure
  it gets: the handlers call it once; a larger number is an over-release.
\<close>

record thread =
  th_pc :: pc
  th_l1 :: string
  th_l2 :: string
  th_env :: acquire_env
  th_releases :: nat

definition goto :: "thread \<Rightarrow> sys \<Rightarrow> pc \<Rightarrow> (sys \<times> thread) option" where
  "goto th s p = Some (s, th\<lparr>th_pc := p\<rparr>)"

definition callRelease :: "thread \<Rightarrow> sys \<Rightarrow> int \<Rightarrow> (sys \<times> thread) option" where
  "callRelease th s k =
     (case th_releases th of
        0 \<Rightarrow> None
      | Suc n \<Rightarrow> Some (s, th\<lparr>th_pc := RelSection k, th_releases := n\<rparr>))"

text \<open>
  One step of a goroutine at time \<open>t\<close>: \<open>None\<close> when it waits for a lock or has nothing
  left to do.
\<close>

definition tstep :: "sort_slice \<Rightarrow> int \<Rightarrow> sys \<Rightarrow> thread \<Rightarrow> (sys \<times> thread) option" where
  "tstep sortSlice t s th =
     (case th_pc th of
        AcqBegin \<Rightarrow>
          (case parseSatNum (th_l1 th) of
             Inl e \<Rightarrow> goto th s (Failed (ParseError e))
           | Inr sn \<Rightarrow> if catalogMu s then None else goto th (catalogLock s) (AcqLookup sn))
      | AcqLookup sn \<Rightarrow>
          (case dllResult (aq_LastErrMsg (th_env th)) (aq_GetSatKey (th_env th)) (\<lambda>_. 0) of
             Inl e \<Rightarrow> goto th (catalogUnlock s) (Failed e)
           | Inr existing \<Rightarrow>
               if existing = - 1 then goto th (catalogUnlock s) (AcqEvict sn)
               else goto th s (AcqHitRLock sn existing))
      | AcqHitRLock sn k \<Rightarrow>
          if canRLock s k then goto th (RLock k s) (AcqHitUnlock sn k) else None
      | AcqHitUnlock sn k \<Rightarrow> goto th (catalogUnlock s) (AcqCount sn k)
      | AcqEvict sn \<Rightarrow> goto th s (RmLockKey (ThenAdd sn) (evictLRUIfNeeded sortSlice (gc s) 1))
      | RmLockKey c victims \<Rightarrow>
          (case victims of
             [] \<Rightarrow> (case c of ThenAdd sn \<Rightarrow> goto th s (AddLockCatalog sn)
                              | ThenSweep \<Rightarrow> goto th s SwWait)
           | k # rest \<Rightarrow> if canLock s k then goto th (Lock k s) (RmLockCatalog c k rest) else None)
      | RmLockCatalog c k rest \<Rightarrow>
          if catalogMu s then None else goto th (catalogLock s) (RmCheck c k rest)
      | RmCheck c k rest \<Rightarrow> goto th s (RmDelete c (shouldRemove (gc s) k) k rest)
      | RmDelete c b k rest \<Rightarrow>
          goto th (if b then s\<lparr>gc := deleteEntry k (gc s)\<rparr> else s) (RmUnlockCatalog c k rest)
      | RmUnlockCatalog c k rest \<Rightarrow> goto th (catalogUnlock s) (RmUnlockKey c k rest)
      | RmUnlockKey c k rest \<Rightarrow> goto th (Unlock k s) (RmLockKey c rest)
      | AddLockCatalog sn \<Rightarrow>
          if catalogMu s then None else goto th (catalogLock s) (AddTLE sn)
      | AddTLE sn \<Rightarrow>
          (case addTLE (th_env th) (th_l1 th) (th_l2 th) of
             Inl e \<Rightarrow> goto th (catalogUnlock s) (Failed e)
           | Inr k \<Rightarrow> goto th s (AddLockKey sn k))
      | AddLockKey sn k \<Rightarrow>
          if canLock s k then goto th (Lock k s) (AddUnlockCatalog sn k) else None
      | AddUnlockCatalog sn k \<Rightarrow> goto th (catalogUnlock s) (AddInit sn k)
      | AddInit sn k \<Rightarrow>
          (case dllResult (aq_LastErrMsg (th_env th)) (aq_InitSat (th_env th)) (\<lambda>r. r) of
             Inl e \<Rightarrow> goto th (Unlock k s) (Failed e)
           | Inr _ \<Rightarrow> goto th (Unlock k s) (AcqMissRLock sn k))
      | AcqMissRLock sn k \<Rightarrow>
          if canRLock s k then goto th (RLock k s) (AcqCount sn k) else None
      | AcqCount sn k \<Rightarrow> goto th (s\<lparr>gc := countRef (gc s) k sn t\<rparr>) (Holding k)
      | Holding k \<Rightarrow> callRelease th s k
      | RelSection k \<Rightarrow> goto th (s\<lparr>gc := releaseSection k t (gc s)\<rparr>) (RelRunlock k)
      | RelRunlock k \<Rightarrow> goto th (RUnlock k s) (Released k)
      | Released k \<Rightarrow> callRelease th s k
      | Failed e \<Rightarrow> None
      | SwWait \<Rightarrow> goto th s (RmLockKey ThenSweep (sweeperVictims (gc s) t)))"

text \<open>
  The system: the shared state and the goroutines. A schedule is a list of pairs of the
  goroutine that moves and the clock reading of that step. A goroutine that cannot move
  leaves the system as it is, and so does every step after a fatal error.
\<close>

definition sysStep :: "sort_slice \<Rightarrow> sys \<times> thread list \<Rightarrow> nat \<times> int \<Rightarrow> sys \<times> thread list" where
  "sysStep sortSlice c a =
     (if fst a < length (snd c) \<and> \<not> fatal (fst c)
      then (case tstep sortSlice (snd a) (fst c) (snd c ! fst a) of
              None \<Rightarrow> c
            | Some (s', th') \<Rightarrow> (s', (snd c)[fst a := th']))
      else c)"

definition sysRun :: "sort_slice \<Rightarrow> sys \<times> thread list \<Rightarrow> (nat \<times> int) list \<Rightarrow> sys \<times> thread list" where
  "sysRun sortSlice c sched = foldl (sysStep sortSlice) c sched"

text \<open>A goroutine that is about to call \<^verbatim>\<open>Acquire\<close>, and the sweeper before its first tick.\<close>

definition client :: "string \<Rightarrow> string \<Rightarrow> acquire_env \<Rightarrow> nat \<Rightarrow> thread" where
  "client l1 l2 env n = \<lparr> th_pc = AcqBegin, th_l1 = l1, th_l2 = l2, th_env = env, th_releases = n \<rparr>"

definition sweeper :: thread where
  "sweeper =
     \<lparr> th_pc = SwWait, th_l1 = [], th_l2 = [],
       th_env = \<lparr> aq_now = 0, aq_GetSatKey = CtxDone, aq_GetSatKey2 = CtxDone,
                  aq_AddSatFrLines = CtxDone, aq_InitSat = CtxDone, aq_LastErrMsg = [] \<rparr>,
       th_releases = 0 \<rparr>"

subsection \<open>\<^verbatim>\<open>Acquire\<close> run without interference\<close>

text \<open>
  A handler runs \<^verbatim>\<open>Acquire\<close> to its end before it goes on. \<open>runAlone n\<close> makes up to \<open>n\<close>
  steps of one goroutine while it can move; \<^verbatim>\<open>Acquire\<close> needs at most eleven steps and
  six more for each victim. The result is the key, or the error, or nothing when
  \<^verbatim>\<open>Acquire\<close> has not returned (it waits for a lock).
\<close>

fun runAlone :: "nat \<Rightarrow> sort_slice \<Rightarrow> int \<Rightarrow> sys \<Rightarrow> thread \<Rightarrow> sys \<times> thread" where
  "runAlone 0 sortSlice t s th = (s, th)"
| "runAlone (Suc n) sortSlice t s th =
     (if fatal s then (s, th)
      else case tstep sortSlice t s th of
             None \<Rightarrow> (s, th)
           | Some (s', th') \<Rightarrow> runAlone n sortSlice t s' th')"

definition acquireResult :: "pc \<Rightarrow> (gc_error + int) option" where
  "acquireResult p = (case p of Holding k \<Rightarrow> Some (Inr k) | Failed e \<Rightarrow> Some (Inl e) | _ \<Rightarrow> None)"

definition Acquire ::
  "sort_slice \<Rightarrow> sys \<Rightarrow> string \<Rightarrow> string \<Rightarrow> acquire_env \<Rightarrow> sys \<times> (gc_error + int) option" where
  "Acquire sortSlice s l1 l2 env =
     (let r = runAlone (12 + 6 * length (loaded (gc s))) sortSlice (aq_now env) s (client l1 l2 env 0)
      in (fst r, acquireResult (th_pc (snd r))))"

subsection \<open>Properties of states\<close>

definition refsNonNeg :: "GC \<Rightarrow> bool" where
  "refsNonNeg g \<longleftrightarrow> (\<forall>(k, e) \<in> set (loaded g). 0 \<le> refs e)"









section \<open>Flat ephemeris arrays (package core)\<close>

text \<open>
  The protobuf message \<^verbatim>\<open>EphemerisData\<close>. \<^verbatim>\<open>flatEphemsToEphemDataArr\<close> leaves
  \<^verbatim>\<open>MseTime\<close> at its zero value.
\<close>

record EphemerisData =
  Ds50Time :: float64
  MseTime :: float64
  X :: float64
  Y :: float64
  Z :: float64
  Vx :: float64
  Vy :: float64
  Vz :: float64

datatype flat_error =
    FlatTooShort        \<comment> \<open>"flat ephemerides array must have at least 7 elements"\<close>
  | FlatNotMultipleOf7  \<comment> \<open>"flat ephemerides array length must be a multiple of 7"\<close>

text \<open>
  The body of the conversion loop at index \<open>i\<close>: \<^verbatim>\<open>base := i * 7\<close> and the seven reads
  \<^verbatim>\<open>flatEphems[base] .. flatEphems[base+6]\<close>. The loop runs for \<open>i < len / 7\<close> after
  both length checks, so every read is in range.
\<close>

definition ephemAt :: "float64 list \<Rightarrow> nat \<Rightarrow> EphemerisData" where
  "ephemAt flatEphems i =
     (let base = i * 7 in
      \<lparr> Ds50Time = flatEphems ! base,
        MseTime = 0,
        X = flatEphems ! (base + 1),
        Y = flatEphems ! (base + 2),
        Z = flatEphems ! (base + 3),
        Vx = flatEphems ! (base + 4),
        Vy = flatEphems ! (base + 5),
        Vz = flatEphems ! (base + 6) \<rparr>)"

definition flatEphemsToEphemDataArr :: "float64 list \<Rightarrow> flat_error + EphemerisData list" where
  "flatEphemsToEphemDataArr flatEphems =
     (if length flatEphems < 7 then Inl FlatTooShort
      else if length flatEphems mod 7 \<noteq> 0 then Inl FlatNotMultipleOf7
      else let count = length flatEphems div 7
           in Inr (map (ephemAt flatEphems) [0..<count]))"

section \<open>The DLL gate (package \<^verbatim>\<open>core_helpers\<close>)\<close>

text \<open>
  The gate is a buffered channel \<^verbatim>\<open>ch\<close> of capacity \<^verbatim>\<open>n\<close>: a permit is held by sending a token
  into it and given back by receiving one. The state is the capacity and the number of
  tokens in the channel.
\<close>

record gate =
  gate_cap :: nat
  gate_len :: nat

definition SetDllGate :: "int \<Rightarrow> gate" where
  "SetDllGate n = \<lparr> gate_cap = nat (if n < 1 then 1 else n), gate_len = 0 \<rparr>"

text \<open>\<^verbatim>\<open>curGate\<close> holds a gate or nothing yet.\<close>

definition ensureGate :: "gate option \<Rightarrow> gate" where
  "ensureGate cur = (case cur of None \<Rightarrow> SetDllGate 1 | Some g \<Rightarrow> g)"

text \<open>
  The surroundings of one \<^verbatim>\<open>WithDllCall\<close>: whether \<^verbatim>\<open>ctx.Done()\<close> is ready at the
  \<^verbatim>\<open>select\<close>, which case the Go runtime picks when both are ready, how \<^verbatim>\<open>call()\<close> ends
  (it returns a code or it panics), and what \<^verbatim>\<open>dllcore.GetLastErrMsg()\<close> would answer.
\<close>

datatype select_case = SendPermit | CtxIsDone

datatype call_result = Returns int | Panics

record dll_env =
  de_ctxDone :: bool
  de_pick :: select_case
  de_call :: call_result
  de_lastErrMsg :: string

datatype dll_error =
    CtxErr                \<comment> \<open>\<^verbatim>\<open>ctx.Err()\<close>\<close>
  | RcError int string    \<comment> \<open>\<^verbatim>\<open>fmt.Errorf("rc=%d: %s", rc, msg)\<close>\<close>

text \<open>
  \<open>Returned None\<close> is the \<^verbatim>\<open>nil\<close> error. \<open>Panicked\<close>: the panic of \<^verbatim>\<open>call()\<close> leaves
  \<^verbatim>\<open>WithDllCall\<close>, whose remaining statements do not run (there is no \<^verbatim>\<open>defer\<close> in it).
  \<open>Blocked\<close>: neither case of the \<^verbatim>\<open>select\<close> is ready, and the goroutine waits.
\<close>

datatype dll_outcome = Returned "dll_error option" | Panicked | Blocked

datatype dll_step =
    AcquirePermit | InvokeCall | ReleasePermit | LockErrMu | ReadLastErrMsg | UnlockErrMu

record dll_run =
  run_gate :: gate
  run_steps :: "dll_step list"
  run_outcome :: dll_outcome

definition WithDllCall :: "gate option \<Rightarrow> dll_env \<Rightarrow> dll_run" where
  "WithDllCall cur env =
     (let g = ensureGate cur;
          canSend = (gate_len g < gate_cap g)
      in if \<not> canSend \<and> \<not> de_ctxDone env
         then \<lparr> run_gate = g, run_steps = [], run_outcome = Blocked \<rparr>
         else if de_ctxDone env \<and> (\<not> canSend \<or> de_pick env = CtxIsDone)
         then \<lparr> run_gate = g, run_steps = [], run_outcome = Returned (Some CtxErr) \<rparr>
         else let g1 = g\<lparr>gate_len := gate_len g + 1\<rparr> in
           (case de_call env of
              Panics \<Rightarrow>
                \<lparr> run_gate = g1, run_steps = [AcquirePermit, InvokeCall], run_outcome = Panicked \<rparr>
            | Returns r \<Rightarrow>
                let g2 = g1\<lparr>gate_len := gate_len g1 - 1\<rparr> in
                if r \<noteq> 0
                then \<lparr> run_gate = g2,
                       run_steps = [AcquirePermit, InvokeCall, ReleasePermit,
                                    LockErrMu, ReadLastErrMsg, UnlockErrMu],
                       run_outcome = Returned (Some (RcError r (de_lastErrMsg env))) \<rparr>
                else \<lparr> run_gate = g2,
                       run_steps = [AcquirePermit, InvokeCall, ReleasePermit],
                       run_outcome = Returned None \<rparr>))"

section \<open>Ephemeris requests (package core)\<close>

subsection \<open>Messages\<close>

text \<open>
  The protobuf messages, with the fields the handler reads. A message pointer that may be
  \<^verbatim>\<open>nil\<close> is an \<open>option\<close>. The \<^verbatim>\<open>oneof\<close> \<^verbatim>\<open>TimeStepType\<close> of a grid holds one of three
  wrappers or nothing. A timestamp is an instant in nanoseconds since the Unix epoch.
\<close>

datatype isEphemTimeGrid_TimeStepType =
    EphemTimeGrid_DynamicTimeStep bool
  | EphemTimeGrid_KnownTimeStepPeriod string
  | EphemTimeGrid_KnownTimeStepDs50 float64

record EphemTimeGrid =
  TimeStartUtc :: "int option"
  TimeStartDs50 :: float64
  TimeEndUtc :: "int option"
  TimeEndDs50 :: float64
  TimeStepType :: "isEphemTimeGrid_TimeStepType option"

record Satellite =
  NoradId :: int
  Name :: string
  TleLn1 :: string
  TleLn2 :: string

record EphemTask =
  TaskId :: int
  TimeGrid :: "EphemTimeGrid option"
  Sat :: "Satellite option"

record EphemRequest =
  ReqId :: int
  EphemType :: int
  CommonTimeGrid :: "EphemTimeGrid option"
  Tasks :: "EphemTask list"

text \<open>
  The response messages. Their fields \<^verbatim>\<open>ReqId\<close> and \<^verbatim>\<open>TaskId\<close> are written \<open>RespReqId\<close> and
  \<open>OutTaskId\<close> here, to keep them apart from those of the request.
\<close>

record EphemOut =
  OutTaskId :: int
  EphemData :: "EphemerisData list"
  EphemPointsCount :: int

record EphemResponse =
  RespReqId :: int
  StreamId :: int
  StreamChunkId :: int
  Result :: EphemOut

text \<open>The generated getters return the zero value when the field is not set.\<close>

definition GetKnownTimeStepPeriod :: "EphemTimeGrid \<Rightarrow> string" where
  "GetKnownTimeStepPeriod grid =
     (case TimeStepType grid of Some (EphemTimeGrid_KnownTimeStepPeriod p) \<Rightarrow> p | _ \<Rightarrow> [])"

definition GetKnownTimeStepDs50 :: "EphemTimeGrid \<Rightarrow> float64" where
  "GetKnownTimeStepDs50 grid =
     (case TimeStepType grid of Some (EphemTimeGrid_KnownTimeStepDs50 d) \<Rightarrow> d | _ \<Rightarrow> 0)"

definition GetTleLn1 :: "Satellite option \<Rightarrow> string" where
  "GetTleLn1 sat = (case sat of None \<Rightarrow> [] | Some s \<Rightarrow> TleLn1 s)"

definition GetTleLn2 :: "Satellite option \<Rightarrow> string" where
  "GetTleLn2 sat = (case sat of None \<Rightarrow> [] | Some s \<Rightarrow> TleLn2 s)"

subsection \<open>Validation\<close>

datatype sat_error =
    NoSatellite      \<comment> \<open>"task must include a satellite"\<close>
  | MissingTleLn1    \<comment> \<open>"satellite is missing TLE line 1"\<close>
  | MissingTleLn2    \<comment> \<open>"satellite is missing TLE line 2"\<close>

definition validateSatellite :: "Satellite option \<Rightarrow> sat_error option" where
  "validateSatellite sat =
     (if sat = None then Some NoSatellite
      else if GetTleLn1 sat = [] then Some MissingTleLn1
      else if GetTleLn2 sat = [] then Some MissingTleLn2
      else None)"

datatype grid_error = StartTimeTwice | EndTimeTwice | TimeStepTwice

definition validateGrid :: "EphemTimeGrid \<Rightarrow> grid_error option" where
  "validateGrid grid =
     (if TimeStartUtc grid \<noteq> None \<and> TimeStartDs50 grid \<noteq> 0 then Some StartTimeTwice
      else if TimeEndUtc grid \<noteq> None \<and> TimeEndDs50 grid \<noteq> 0 then Some EndTimeTwice
      else if GetKnownTimeStepPeriod grid \<noteq> [] \<and> GetKnownTimeStepDs50 grid \<noteq> 0
      then Some TimeStepTwice
      else None)"

datatype request_error =
    NoTasks                      \<comment> \<open>"request must have at least one task"\<close>
  | InvalidEphemType int         \<comment> \<open>"invalid ephemerides type: ..."\<close>
  | CommonGridError grid_error
  | TaskSatError nat sat_error   \<comment> \<open>"task %d: ..."\<close>
  | TaskWithoutGrid nat          \<comment> \<open>"task %d must have its own time grid ..."\<close>
  | TaskGridError nat grid_error \<comment> \<open>"task %d: ..."\<close>

definition EciEphemType :: int where "EciEphemType = 1"
definition J2KEphemType :: int where "J2KEphemType = 2"

text \<open>The loop over the tasks of \<^verbatim>\<open>validateAnalytEphemRequest\<close>, from index \<open>i\<close> on.\<close>

fun validateTasks :: "EphemRequest \<Rightarrow> nat \<Rightarrow> EphemTask list \<Rightarrow> request_error option" where
  "validateTasks req i [] = None"
| "validateTasks req i (task # tasks) =
     (case validateSatellite (Sat task) of
        Some e \<Rightarrow> Some (TaskSatError i e)
      | None \<Rightarrow>
          if CommonTimeGrid req = None \<and> TimeGrid task = None then Some (TaskWithoutGrid i)
          else (case TimeGrid task of
                  Some tg \<Rightarrow>
                    (case validateGrid tg of
                       Some e \<Rightarrow> Some (TaskGridError i e)
                     | None \<Rightarrow> validateTasks req (i + 1) tasks)
                | None \<Rightarrow> validateTasks req (i + 1) tasks))"

definition validateAnalytEphemRequest :: "EphemRequest \<Rightarrow> request_error option" where
  "validateAnalytEphemRequest req =
     (if length (Tasks req) = 0 then Some NoTasks
      else if EphemType req \<noteq> EciEphemType \<and> EphemType req \<noteq> J2KEphemType
      then Some (InvalidEphemType (EphemType req))
      else case (case CommonTimeGrid req of None \<Rightarrow> None | Some cg \<Rightarrow> validateGrid cg) of
             Some e \<Rightarrow> Some (CommonGridError e)
           | None \<Rightarrow> validateTasks req 0 (Tasks req))"

subsection \<open>Time grids\<close>

text \<open>
  \<^verbatim>\<open>UtcToDS50\<close>: the reference instant is 1950-01-01 12:00:00 UTC, which is 631108800
  seconds before the Unix epoch; \<^verbatim>\<open>t.Sub(ref)\<close> saturates like every \<^verbatim>\<open>time.Duration\<close>.
\<close>

definition UtcToDS50 :: "int \<Rightarrow> float64" where
  "UtcToDS50 t = real_of_int (timeSub t (- 631108800 * 10 ^ 9)) / 10 ^ 9 / 86400"

definition resolveTimeGrid :: "EphemTask \<Rightarrow> EphemRequest \<Rightarrow> EphemTimeGrid option" where
  "resolveTimeGrid task req =
     (if TimeGrid task \<noteq> None then TimeGrid task else CommonTimeGrid req)"

definition isDynamicTimeStep :: "EphemTimeGrid \<Rightarrow> bool" where
  "isDynamicTimeStep grid =
     (case TimeStepType grid of Some (EphemTimeGrid_DynamicTimeStep b) \<Rightarrow> b | _ \<Rightarrow> False)"

datatype go_panic =
    PanicDurationParse string  \<comment> \<open>\<^verbatim>\<open>panic(err)\<close> in \<^verbatim>\<open>getKnownTimeStep\<close>\<close>
  | PanicNilGrid               \<comment> \<open>a field of a \<^verbatim>\<open>nil\<close> grid is read\<close>
  | PanicSliceLen              \<comment> \<open>\<^verbatim>\<open>unsafe.Slice\<close> with a negative length\<close>
  | PanicOutOfBuffer           \<comment> \<open>the native result claims more points than the buffer holds\<close>

text \<open>
  \<^verbatim>\<open>getKnownTimeStep\<close>. The library \<^verbatim>\<open>github.com/sosodev/duration\<close> is not part of the sources:
  \<open>durationMinutes p\<close> stands for \<^verbatim>\<open>duration.Parse(p)\<close> followed by
  \<^verbatim>\<open>ToTimeDuration().Minutes()\<close>, and is \<open>None\<close> when \<^verbatim>\<open>Parse\<close> returns an error.
\<close>

definition getKnownTimeStep ::
  "(string \<Rightarrow> float64 option) \<Rightarrow> EphemTimeGrid \<Rightarrow> go_panic + float64" where
  "getKnownTimeStep durationMinutes grid =
     (case TimeStepType grid of
        Some (EphemTimeGrid_KnownTimeStepPeriod p) \<Rightarrow>
          (case durationMinutes p of
             None \<Rightarrow> Inl (PanicDurationParse p)
           | Some step \<Rightarrow> Inr step)
      | Some (EphemTimeGrid_KnownTimeStepDs50 d) \<Rightarrow> Inr (d * 1440)
      | _ \<Rightarrow> Inr 0)"

subsection \<open>The native generator (package dllcore, \<^verbatim>\<open>Sgp4GenEphems\<close>)\<close>

text \<open>
  One call of the C function \<^verbatim>\<open>Sgp4GenEphems_shim\<close>: the arguments it is given, and what it
  gives back (its return code, the point count written to \<^verbatim>\<open>got\<close>, and the contents of
  the buffer, whose length is the number of doubles allocated for it).
\<close>

record c_call =
  cc_satKey :: int
  cc_startTime :: float64
  cc_endTime :: float64
  cc_stepSize :: float64
  cc_sgp4Ephem :: int
  cc_arrSize :: int

record c_ret =
  cr_rc :: int
  cr_got :: int
  cr_buf :: "float64 list"

text \<open>
  The surroundings of one pass through the chunk loop: whether \<^verbatim>\<open>C.malloc\<close> fails, what the
  native call gives back, what \<^verbatim>\<open>getDllLastError()\<close> answers, and whether the \<^verbatim>\<open>select\<close> that
  sends the chunk takes its \<^verbatim>\<open>ctx.Done()\<close> case.
\<close>

record gen_env =
  ge_mallocFails :: bool
  ge_shim :: c_ret
  ge_lastErr :: string
  ge_ctxDone :: bool

text \<open>The conversion \<^verbatim>\<open>int32(x)\<close> of a Go \<^verbatim>\<open>int\<close> keeps the low 32 bits.\<close>

definition to_int32 :: "int \<Rightarrow> int" where
  "to_int32 x = (x + 2 ^ 31) mod 2 ^ 32 - 2 ^ 31"

text \<open>
  \<^verbatim>\<open>Sgp4GenEphems\<close> returns \<^verbatim>\<open>(ephemFlatArr, n, nextStart, done, errCode)\<close>; the model also
  reports the native calls made. The C macro \<^verbatim>\<open>DYN_SS_BASIC\<close> comes from a header that is
  not part of the sources and is a parameter. A negative \<^verbatim>\<open>got\<close> makes \<^verbatim>\<open>unsafe.Slice\<close>
  panic; a \<^verbatim>\<open>got\<close> beyond the buffer makes the copy read outside it, where Go promises
  nothing, and the model stops. \<^verbatim>\<open>cs[(n-1)*7+0]\<close> is read when \<open>0 < n\<close> and \<open>7 n\<close> is within
  the buffer. The source computes \<^verbatim>\<open>nextStart\<close> and compares it with \<^verbatim>\<open>endTime\<close> in \<^verbatim>\<open>float64\<close>,
  with rounding; the model computes both exactly, so the values of \<^verbatim>\<open>nextStart\<close> and \<^verbatim>\<open>done\<close>
  after a chunk with points can differ from those of the program, and nothing below is
  concluded from them. The branch for \<^verbatim>\<open>buf == nil\<close> is kept as the source has it; with cgo,
  \<^verbatim>\<open>C.malloc\<close> does not return \<^verbatim>\<open>nil\<close>, so the branch is not taken in a run of the program.
\<close>

definition Sgp4GenEphems ::
  "float64 \<Rightarrow> gen_env \<Rightarrow> int \<Rightarrow> float64 \<Rightarrow> float64 \<Rightarrow> float64 \<Rightarrow> int \<Rightarrow> int
     \<Rightarrow> c_call list \<times> (go_panic + float64 list \<times> int \<times> float64 \<times> bool \<times> int)" where
  "Sgp4GenEphems DYN_SS_BASIC env satKey startTime endTime timeStep sgp4EphemType chunkSize =
     (if ge_mallocFails env then ([], Inr ([], 0, 0, False, - 10))
      else let timeStep' = (if timeStep = - 1 then DYN_SS_BASIC else timeStep);
               call = \<lparr> cc_satKey = satKey, cc_startTime = startTime, cc_endTime = endTime,
                        cc_stepSize = timeStep', cc_sgp4Ephem = sgp4EphemType,
                        cc_arrSize = chunkSize \<rparr>;
               n = cr_got (ge_shim env)
           in if cr_rc (ge_shim env) \<noteq> 0 \<and> n = 0 then ([call], Inr ([], 0, 0, False, cr_rc (ge_shim env)))
              else if n < 0 then ([call], Inl PanicSliceLen)
              else if length (cr_buf (ge_shim env)) < nat (n * 7) then ([call], Inl PanicOutOfBuffer)
              else let ephemFlatArr = take (nat (n * 7)) (cr_buf (ge_shim env)) in
                if n = 0 then ([call], Inr (ephemFlatArr, 0, startTime, True, 0))
                else let lastT = cr_buf (ge_shim env) ! nat ((n - 1) * 7);
                         nextStart = lastT + 1 / 10 ^ 9 / 86400
                     in ([call], Inr (ephemFlatArr, n, nextStart,
                                      n < chunkSize \<or> nextStart \<ge> endTime, 0)))"

subsection \<open>The chunk loop (\<^verbatim>\<open>runAnalytGenEphems\<close>)\<close>

definition buildEphemResponse ::
  "EphemRequest \<Rightarrow> EphemTask \<Rightarrow> nat \<Rightarrow> float64 list \<Rightarrow> int \<Rightarrow> int \<Rightarrow> flat_error + EphemResponse" where
  "buildEphemResponse req task taskIdx flat cnt chunkID =
     (case flatEphemsToEphemDataArr flat of
        Inl e \<Rightarrow> Inl e
      | Inr ephemDataArr \<Rightarrow>
          Inr \<lparr> RespReqId = ReqId req,
                StreamId = int taskIdx,
                StreamChunkId = chunkID,
                Result = \<lparr> OutTaskId = TaskId task,
                           EphemData = ephemDataArr,
                           EphemPointsCount = cnt \<rparr> \<rparr>)"

datatype task_error =
    AllocFailed          \<comment> \<open>"... failed to allocate result buffer"\<close>
  | NativeFailed string  \<comment> \<open>"failed to generate ephemeris data: %s"\<close>
  | FlatError flat_error
  | TaskCancelled        \<comment> \<open>\<^verbatim>\<open>ctx.Err()\<close>\<close>

text \<open>
  How the loop ends: it breaks and the function returns \<^verbatim>\<open>nil\<close>, it returns an error, it
  panics, or it is still running when the recorded surroundings are used up.
\<close>

datatype loop_end = LoopDone | LoopError task_error | LoopPanic go_panic | LoopRunning

record loop_out =
  lo_chunks :: "EphemResponse list"
  lo_calls :: "c_call list"
  lo_end :: loop_end

definition loopStop :: "c_call list \<Rightarrow> loop_end \<Rightarrow> loop_out" where
  "loopStop calls e = \<lparr> lo_chunks = [], lo_calls = calls, lo_end = e \<rparr>"

definition loopMore :: "EphemResponse list \<Rightarrow> c_call list \<Rightarrow> loop_out \<Rightarrow> loop_out" where
  "loopMore chunks calls r =
     \<lparr> lo_chunks = chunks @ lo_chunks r, lo_calls = calls @ lo_calls r, lo_end = lo_end r \<rparr>"

text \<open>The values that stay fixed while the loop runs.\<close>

record loop_fixed =
  lf_DYN_SS_BASIC :: float64
  lf_req :: EphemRequest
  lf_task :: EphemTask
  lf_taskIdx :: nat
  lf_satKey :: int
  lf_timeEnd :: float64
  lf_timeStep :: float64
  lf_chunkSize :: int

text \<open>
  The \<^verbatim>\<open>for\<close> loop, with its two variables \<^verbatim>\<open>chunkID\<close> and \<^verbatim>\<open>timeStart\<close>. Each pass uses up one
  element of the recorded surroundings. A chunk counts as sent when the \<^verbatim>\<open>select\<close> takes the
  send into \<^verbatim>\<open>resultsCh\<close>.
\<close>

fun chunkLoop :: "loop_fixed \<Rightarrow> gen_env list \<Rightarrow> int \<Rightarrow> float64 \<Rightarrow> loop_out" where
  "chunkLoop F [] chunkID timeStart = loopStop [] LoopRunning"
| "chunkLoop F (env # envs) chunkID timeStart =
     (case Sgp4GenEphems (lf_DYN_SS_BASIC F) env (lf_satKey F) timeStart (lf_timeEnd F)
             (lf_timeStep F) (to_int32 (EphemType (lf_req F))) (to_int32 (lf_chunkSize F)) of
        (calls, Inl p) \<Rightarrow> loopStop calls (LoopPanic p)
      | (calls, Inr (flat, n, next, done, errCode)) \<Rightarrow>
          if errCode = - 10 then loopStop calls (LoopError AllocFailed)
          else if errCode \<noteq> 0 \<and> n = 0 \<and> ge_lastErr env \<noteq> []
          then loopStop calls (LoopError (NativeFailed (ge_lastErr env)))
          else if n > 0
          then (case buildEphemResponse (lf_req F) (lf_task F) (lf_taskIdx F) flat n chunkID of
                  Inl e \<Rightarrow> loopStop calls (LoopError (FlatError e))
                | Inr ephemResp \<Rightarrow>
                    if ge_ctxDone env then loopStop calls (LoopError TaskCancelled)
                    else if done then loopMore [ephemResp] calls (loopStop [] LoopDone)
                    else loopMore [ephemResp] calls (chunkLoop F envs (chunkID + 1) next))
          else if done then loopStop calls LoopDone
          else loopMore [] calls (chunkLoop F envs chunkID next))"

text \<open>
  \<^verbatim>\<open>runAnalytGenEphems\<close>. The writes of the converted bounds into the grid are kept in the
  local values \<open>timeStartDs50\<close> and \<open>timeEndDs50\<close>.
\<close>

definition runAnalytGenEphems ::
  "float64 \<Rightarrow> (string \<Rightarrow> float64 option) \<Rightarrow> EphemRequest \<Rightarrow> EphemTask \<Rightarrow> nat \<Rightarrow> int \<Rightarrow> int
     \<Rightarrow> gen_env list \<Rightarrow> loop_out" where
  "runAnalytGenEphems DYN_SS_BASIC durationMinutes req task taskIdx satKey chunkSize envs =
     (case resolveTimeGrid task req of
        None \<Rightarrow> loopStop [] (LoopPanic PanicNilGrid)
      | Some timeGrid \<Rightarrow>
          let timeStartDs50 = (case TimeStartUtc timeGrid of
                                 Some u \<Rightarrow> UtcToDS50 u | None \<Rightarrow> TimeStartDs50 timeGrid);
              timeEndDs50 = (case TimeEndUtc timeGrid of
                               Some u \<Rightarrow> UtcToDS50 u | None \<Rightarrow> TimeEndDs50 timeGrid)
          in (case (if isDynamicTimeStep timeGrid then Inr (- 1)
                    else getKnownTimeStep durationMinutes timeGrid) of
                Inl p \<Rightarrow> loopStop [] (LoopPanic p)
              | Inr timeStep \<Rightarrow>
                  chunkLoop \<lparr> lf_DYN_SS_BASIC = DYN_SS_BASIC, lf_req = req, lf_task = task,
                              lf_taskIdx = taskIdx, lf_satKey = satKey, lf_timeEnd = timeEndDs50,
                              lf_timeStep = timeStep, lf_chunkSize = chunkSize \<rparr>
                    envs 0 timeStartDs50))"

subsection \<open>The handler \<^verbatim>\<open>Ephem\<close>\<close>

text \<open>
  The surroundings of one task: whether the context is done at the check before the
  task, the native answers for \<^verbatim>\<open>Acquire\<close>, the passes of the chunk loop, and the time at
  which the release closure runs.
\<close>

record task_env =
  te_ctxDone :: bool
  te_acquire :: acquire_env
  te_gen :: "gen_env list"
  te_releaseNow :: int

datatype ephem_end =
    EphemOK
  | StatusInvalidArgument request_error  \<comment> \<open>\<^verbatim>\<open>status.Error(codes.InvalidArgument, ...)\<close>\<close>
  | StatusInternal gc_error              \<comment> \<open>\<^verbatim>\<open>status.Errorf(codes.Internal, ...)\<close>\<close>
  | EphemCtxErr                          \<comment> \<open>\<^verbatim>\<open>ctx.Err()\<close> at the check before a task\<close>
  | EphemSendErr                         \<comment> \<open>the error latched by the sender\<close>
  | EphemTaskErr task_error              \<comment> \<open>the error of \<^verbatim>\<open>processTask\<close>\<close>
  | EphemPanic go_panic
  | EphemRunning
  | EphemFatal                           \<comment> \<open>the process was ended by a fatal error of the runtime\<close>

record tasks_out =
  to_gc :: sys
  to_queued :: "EphemResponse list"
  to_calls :: "c_call list"
  to_end :: ephem_end

definition tasksStop :: "sys \<Rightarrow> loop_out \<Rightarrow> ephem_end \<Rightarrow> tasks_out" where
  "tasksStop g lo e = \<lparr> to_gc = g, to_queued = lo_chunks lo, to_calls = lo_calls lo, to_end = e \<rparr>"

definition tasksMore :: "loop_out \<Rightarrow> tasks_out \<Rightarrow> tasks_out" where
  "tasksMore lo r =
     r\<lparr> to_queued := lo_chunks lo @ to_queued r, to_calls := lo_calls lo @ to_calls r \<rparr>"

text \<open>The values that stay fixed while the tasks are processed.\<close>

record ephem_fixed =
  ef_sortSlice :: sort_slice
  ef_DYN_SS_BASIC :: float64
  ef_durationMinutes :: "string \<Rightarrow> float64 option"
  ef_StreamChunkSize :: int
  ef_req :: EphemRequest

text \<open>
  The \<^verbatim>\<open>for taskIdx, task := range req.GetTasks()\<close> loop of \<^verbatim>\<open>Ephem\<close>, from index \<open>taskIdx\<close>
  on; \<open>tenv i\<close> are the surroundings of task \<open>i\<close>. The result holds the chunks put into
  \<^verbatim>\<open>resultsCh\<close> and how the loop was left. The handler holds \<^verbatim>\<open>globMu\<close>, so no other handler
  runs beside it, and \<^verbatim>\<open>Acquire\<close> is run without interference; when \<^verbatim>\<open>Acquire\<close> does not
  return, the handler is still running. \<^verbatim>\<open>release()\<close> is an ordinary statement after
  \<^verbatim>\<open>runAnalytGenEphems\<close>, so after a panic the release closure has not run. The closure is
  the one \<^verbatim>\<open>Acquire\<close> made, with the \<^verbatim>\<open>RUnlock\<close> of the key's mutex.
\<close>

fun ephemTasks ::
  "ephem_fixed \<Rightarrow> (nat \<Rightarrow> task_env) \<Rightarrow> sys \<Rightarrow> nat \<Rightarrow> EphemTask list \<Rightarrow> tasks_out" where
  "ephemTasks E tenv g taskIdx [] = tasksStop g (loopStop [] LoopDone) EphemOK"
| "ephemTasks E tenv g taskIdx (task # tasks) =
     (if te_ctxDone (tenv taskIdx) then tasksStop g (loopStop [] LoopDone) EphemCtxErr
      else case Acquire (ef_sortSlice E) g (GetTleLn1 (Sat task)) (GetTleLn2 (Sat task))
                  (te_acquire (tenv taskIdx)) of
             (g1, None) \<Rightarrow> tasksStop g1 (loopStop [] LoopDone) EphemRunning
           | (g1, Some (Inl e)) \<Rightarrow> tasksStop g1 (loopStop [] LoopDone) (StatusInternal e)
           | (g1, Some (Inr satKey)) \<Rightarrow>
               let lo = runAnalytGenEphems (ef_DYN_SS_BASIC E) (ef_durationMinutes E) (ef_req E)
                          task taskIdx satKey (ef_StreamChunkSize E) (te_gen (tenv taskIdx));
                   g2 = makeReleaser satKey (Some satKey) (te_releaseNow (tenv taskIdx)) g1
               in (case lo_end lo of
                     LoopPanic p \<Rightarrow> tasksStop g1 lo (EphemPanic p)
                   | LoopRunning \<Rightarrow> tasksStop g1 lo EphemRunning
                   | LoopError e \<Rightarrow>
                       tasksStop g2 lo (if fatal g2 then EphemFatal else EphemTaskErr e)
                   | LoopDone \<Rightarrow>
                       if fatal g2 then tasksStop g2 lo EphemFatal
                       else tasksMore lo (ephemTasks E tenv g2 (taskIdx + 1) tasks)))"

text \<open>
  \<^verbatim>\<open>Ephem\<close>. The sender goroutine forwards the queued chunks to \<^verbatim>\<open>srv.Send\<close> in order and
  stops at the first \<^verbatim>\<open>Send\<close> that fails; \<open>sendFails\<close> is the position of that chunk in the
  stream, if there is one. The handler reads the latched error after the sender has
  stopped, on the two paths that do so. The model lets the producer queue every chunk;
  the real producer can also wait on a full channel once the sender has stopped, and
  then ends with an error as well.
\<close>

record ephem_out =
  eo_gc :: sys
  eo_sent :: "EphemResponse list"
  eo_calls :: "c_call list"
  eo_end :: ephem_end

definition Ephem ::
  "ephem_fixed \<Rightarrow> (nat \<Rightarrow> task_env) \<Rightarrow> nat option \<Rightarrow> sys \<Rightarrow> ephem_out" where
  "Ephem E tenv sendFails g =
     (case validateAnalytEphemRequest (ef_req E) of
        Some e \<Rightarrow> \<lparr> eo_gc = g, eo_sent = [], eo_calls = [], eo_end = StatusInvalidArgument e \<rparr>
      | None \<Rightarrow>
          let r = ephemTasks E tenv g 0 (Tasks (ef_req E));
              sent = (case sendFails of None \<Rightarrow> to_queued r | Some j \<Rightarrow> take j (to_queued r));
              sendErr = (case sendFails of None \<Rightarrow> False | Some j \<Rightarrow> j < length (to_queued r))
          in \<lparr> eo_gc = to_gc r, eo_sent = sent, eo_calls = to_calls r,
               eo_end = (case to_end r of
                           EphemOK \<Rightarrow> if sendErr then EphemSendErr else EphemOK
                         | EphemTaskErr e \<Rightarrow> if sendErr then EphemSendErr else EphemTaskErr e
                         | e \<Rightarrow> e) \<rparr>)"

section \<open>Properties of response streams\<close>

text \<open>A chunk declares as many points as it carries.\<close>

definition chunkCountOk :: "EphemResponse \<Rightarrow> bool" where
  "chunkCountOk x \<longleftrightarrow> EphemPointsCount (Result x) = int (length (EphemData (Result x)))"

text \<open>
  A list of chunks of the tasks from index \<open>lo\<close> on: every chunk declares its points, and
  the chunks of each stream carry the chunk ids 0, 1, 2, ... in this order.
\<close>

definition streamOk :: "nat \<Rightarrow> EphemResponse list \<Rightarrow> bool" where
  "streamOk lo xs \<longleftrightarrow>
     (\<forall>x \<in> set xs. int lo \<le> StreamId x \<and> chunkCountOk x) \<and>
     (\<forall>j. map StreamChunkId (filter (\<lambda>x. StreamId x = int j) xs) =
           map int [0..<length (filter (\<lambda>x. StreamId x = int j) xs)])"

section \<open>Example inputs\<close>

text \<open>
  The request of the repository's example \<^verbatim>\<open>gen_ephemeris_known_type_step_ds50\<close> (one task,
  a common grid from DS50 27744.5 to 27754.5, frame J2K), with the step of the grid left
  open, and surroundings in which the satellite is not loaded yet and the native
  library loads it under key 1. The stand-in for the duration parser knows \<^verbatim>\<open>PT10M\<close> only.
\<close>

definition exampleSat :: Satellite where
  "exampleSat =
     \<lparr> NoradId = 65271, Name = ''X-37B Orbital Test Vehicle 8 (OTV 8)'',
       TleLn1 = ''1 65271U 25183A   25282.36302114 0.00010000  00000-0  55866-4 0    07'',
       TleLn2 = ''2 65271  48.7951   8.5514 0002000  85.4867 277.3551 15.78566782    05'' \<rparr>"

definition exampleGrid :: "isEphemTimeGrid_TimeStepType option \<Rightarrow> EphemTimeGrid" where
  "exampleGrid step =
     \<lparr> TimeStartUtc = None, TimeStartDs50 = 27744.5, TimeEndUtc = None, TimeEndDs50 = 27754.5,
       TimeStepType = step \<rparr>"

definition exampleTask :: EphemTask where
  "exampleTask = \<lparr> TaskId = 10, TimeGrid = None, Sat = Some exampleSat \<rparr>"

definition exampleRequest :: "isEphemTimeGrid_TimeStepType option \<Rightarrow> EphemRequest" where
  "exampleRequest step =
     \<lparr> ReqId = 1, EphemType = J2KEphemType, CommonTimeGrid = Some (exampleGrid step),
       Tasks = [exampleTask] \<rparr>"

text \<open>A stand-in for \<^verbatim>\<open>sort.Slice\<close>: insertion sort with the given \<^verbatim>\<open>less\<close> function.\<close>

fun insertBy :: "('a \<Rightarrow> 'a \<Rightarrow> bool) \<Rightarrow> 'a \<Rightarrow> 'a list \<Rightarrow> 'a list" where
  "insertBy lt x [] = [x]"
| "insertBy lt x (y # ys) = (if lt x y then x # y # ys else y # insertBy lt x ys)"

definition exampleSortSlice :: sort_slice where
  "exampleSortSlice lt xs = foldr (insertBy lt) xs []"

definition exampleFixed :: "isEphemTimeGrid_TimeStepType option \<Rightarrow> ephem_fixed" where
  "exampleFixed step =
     \<lparr> ef_sortSlice = exampleSortSlice, ef_DYN_SS_BASIC = - 1,
       ef_durationMinutes = (\<lambda>p. if p = ''PT10M'' then Some 10 else None),
       ef_StreamChunkSize = 2, ef_req = exampleRequest step \<rparr>"

definition exampleAcquire :: acquire_env where
  "exampleAcquire =
     \<lparr> aq_now = 100, aq_GetSatKey = DllRet (- 1), aq_GetSatKey2 = DllRet (- 1),
       aq_AddSatFrLines = DllRet 1, aq_InitSat = DllRet 0, aq_LastErrMsg = [] \<rparr>"

definition exampleTaskEnv :: "gen_env list \<Rightarrow> nat \<Rightarrow> task_env" where
  "exampleTaskEnv passes i =
     \<lparr> te_ctxDone = False, te_acquire = exampleAcquire, te_gen = passes, te_releaseNow = 200 \<rparr>"

definition exampleGC :: GC where
  "exampleGC = NewGC 100 600 60 2 600 60"

text \<open>A pass of the chunk loop in which the native call answers with \<open>r\<close> and message \<open>msg\<close>.\<close>

definition examplePass :: "c_ret \<Rightarrow> string \<Rightarrow> gen_env" where
  "examplePass r msg = \<lparr> ge_mallocFails = False, ge_shim = r, ge_lastErr = msg, ge_ctxDone = False \<rparr>"

text \<open>
  A registry with one satellite in use and two idle ones, a handler that asks for the
  satellite loaded under key 2, and the sweeper.
\<close>

definition exampleRegistry :: GC where
  "exampleRegistry =
     \<lparr> loaded = [(1, \<lparr>key = 1, satNum = 10001, lastUsed = 5, refs = 1\<rparr>),
                 (2, \<lparr>key = 2, satNum = 65271, lastUsed = 6, refs = 0\<rparr>),
                 (3, \<lparr>key = 3, satNum = 10003, lastUsed = 7, refs = 0\<rparr>)],
       maxLoaded = 3, idleTTL = 10, sweepInterval = 1 \<rparr>"

definition exampleHit :: acquire_env where
  "exampleHit =
     \<lparr> aq_now = 100, aq_GetSatKey = DllRet 2, aq_GetSatKey2 = DllRet 2,
       aq_AddSatFrLines = DllRet 2, aq_InitSat = DllRet 0, aq_LastErrMsg = [] \<rparr>"

definition exampleThreads :: "nat \<Rightarrow> thread list" where
  "exampleThreads n = [client (TleLn1 exampleSat) (TleLn2 exampleSat) exampleHit n, sweeper]"


chapter \<open>Results\<close>

section \<open>Unfolding the model on concrete inputs\<close>

lemmas satnum_defs =
  parseSatNum_def TrimSpace_def Atoi_def isDigit_def asciiSpace_def space2_def space3_def
  byteOf_def Let_def

lemmas lock_defs =
  canRLock_def RLock_def RUnlock_def canLock_def Lock_def Unlock_def catalogLock_def
  catalogUnlock_def

lemmas gc_defs =
  NewGC_def NewSys_def dllResult_def countRef_def releaseSection_def shouldRemove_def
  deleteEntry_def makeReleaser_def evictLRUIfNeeded_def candidatesOf_def tsBefore_def
  sweeperVictims_def timeSub_def addTLE_def

lemmas tstep_defs = tstep_def goto_def callRelease_def

lemmas run_defs = sysRun_def sysStep_def Acquire_def acquireResult_def client_def sweeper_def

lemmas ephem_defs =
  Ephem_def validateAnalytEphemRequest_def validateSatellite_def validateGrid_def
  GetKnownTimeStepPeriod_def GetKnownTimeStepDs50_def GetTleLn1_def GetTleLn2_def
  EciEphemType_def J2KEphemType_def resolveTimeGrid_def isDynamicTimeStep_def
  getKnownTimeStep_def runAnalytGenEphems_def Sgp4GenEphems_def buildEphemResponse_def
  flatEphemsToEphemDataArr_def ephemAt_def loopStop_def loopMore_def tasksStop_def
  tasksMore_def to_int32_def

lemmas example_defs =
  exampleGrid_def exampleTask_def exampleRequest_def exampleFixed_def
  exampleTaskEnv_def examplePass_def

lemma example_lines: "TleLn1 exampleSat \<noteq> []" "TleLn2 exampleSat \<noteq> []"
  by (simp_all add: exampleSat_def)

lemma example_parse: "parseSatNum (TleLn1 exampleSat) = Inr 65271"
  by (simp add: exampleSat_def satnum_defs)

lemma example_Acquire:
  "Acquire exampleSortSlice (NewSys exampleGC) (TleLn1 exampleSat) (TleLn2 exampleSat) exampleAcquire =
     (\<lparr> gc = exampleGC\<lparr>loaded := [(1, \<lparr>key = 1, satNum = 65271, lastUsed = 100, refs = 1\<rparr>)]\<rparr>,
        satLocks = (\<lambda>k. \<lparr>rw_readers = 0, rw_writer = False\<rparr>)
                     (1 := \<lparr>rw_readers = 1, rw_writer = False\<rparr>),
        catalogMu = False, fatal = False \<rparr>,
      Some (Inr 1))"
  by (simp add: run_defs tstep_defs lock_defs gc_defs example_parse exampleAcquire_def
        exampleGC_def eval_nat_numeral)

section \<open>The registry: reference counts and eviction\<close>

subsection \<open>Reference counts\<close>

lemma set_update_cases:
  "p \<in> set (AList.update k v al) \<Longrightarrow> p = (k, v) \<or> p \<in> set al"
  by (induction al) (auto split: if_splits)

lemma refsNonNeg_lookup: "refsNonNeg g \<Longrightarrow> map_of (loaded g) k = Some e \<Longrightarrow> 0 \<le> refs e"
  unfolding refsNonNeg_def by (auto dest: map_of_SomeD)

lemma refsNonNeg_countRef:
  assumes "refsNonNeg g"
  shows "refsNonNeg (countRef g k sn t)"
proof (cases "map_of (loaded g) k")
  case None
  with assms show ?thesis
    unfolding refsNonNeg_def countRef_def by (auto dest!: set_update_cases)
next
  case (Some e)
  with assms have "0 \<le> refs e" by (rule refsNonNeg_lookup)
  with assms Some show ?thesis
    unfolding refsNonNeg_def countRef_def by (auto dest!: set_update_cases)
qed

lemma refsNonNeg_releaseSection: "refsNonNeg g \<Longrightarrow> refsNonNeg (releaseSection k t g)"
  unfolding refsNonNeg_def releaseSection_def
  by (auto split: option.splits dest!: set_update_cases)

lemma set_delete_subset: "set (AList.delete k al) \<subseteq> set al"
  by (auto simp: AList.delete_eq)

lemma refsNonNeg_deleteEntry: "refsNonNeg g \<Longrightarrow> refsNonNeg (deleteEntry k g)"
  using set_delete_subset [of k "loaded g"]
  unfolding refsNonNeg_def deleteEntry_def by auto

lemma tstep_gc_cases:
  assumes "tstep ss t s th = Some (s', th')"
  shows "gc s' = gc s \<or>
         (\<exists>sn k. th_pc th = AcqCount sn k \<and> gc s' = countRef (gc s) k sn t) \<or>
         (\<exists>k. th_pc th = RelSection k \<and> gc s' = releaseSection k t (gc s)) \<or>
         (\<exists>c k rest. th_pc th = RmDelete c True k rest \<and> gc s' = deleteEntry k (gc s))"
  using assms
  by (cases "th_pc th")
     (auto simp: tstep_defs lock_defs
           split: sum.splits if_splits list.splits caller.splits nat.splits)

lemma tstep_refsNonNeg:
  assumes "tstep ss t s th = Some (s', th')" and "refsNonNeg (gc s)"
  shows "refsNonNeg (gc s')"
  using tstep_gc_cases [OF assms(1)] assms(2)
  by (auto simp: refsNonNeg_countRef refsNonNeg_releaseSection refsNonNeg_deleteEntry)

lemma sysStep_refsNonNeg: "refsNonNeg (gc (fst c)) \<Longrightarrow> refsNonNeg (gc (fst (sysStep ss c a)))"
  by (auto simp: sysStep_def tstep_refsNonNeg split: option.splits)

lemma sysRun_refsNonNeg: "refsNonNeg (gc (fst c)) \<Longrightarrow> refsNonNeg (gc (fst (sysRun ss c sched)))"
  unfolding sysRun_def
  by (induction sched arbitrary: c) (simp_all add: sysStep_refsNonNeg)

text \<open>
  One handler that acquires the example satellite on the miss path: after eleven steps
  \<^verbatim>\<open>Acquire\<close> has returned key 1, the entry has \<^verbatim>\<open>refs\<close> 1, and the handler holds one read lock
  of the key.
\<close>

lemma example_acquired:
  "sysRun exampleSortSlice
     (NewSys exampleGC, [client (TleLn1 exampleSat) (TleLn2 exampleSat) exampleAcquire n])
     (replicate 11 (0, 100)) =
   (\<lparr> gc = exampleGC\<lparr>loaded := [(1, \<lparr>key = 1, satNum = 65271, lastUsed = 100, refs = 1\<rparr>)]\<rparr>,
      satLocks = (\<lambda>k. \<lparr>rw_readers = 0, rw_writer = False\<rparr>)
                   (1 := \<lparr>rw_readers = 1, rw_writer = False\<rparr>),
      catalogMu = False, fatal = False \<rparr>,
    [\<lparr>th_pc = Holding 1, th_l1 = TleLn1 exampleSat, th_l2 = TleLn2 exampleSat,
      th_env = exampleAcquire, th_releases = n\<rparr>])"
  by (simp add: run_defs tstep_defs lock_defs gc_defs example_parse exampleAcquire_def
        exampleGC_def eval_nat_numeral)

text \<open>
  C1 (as stated, fails for the closure that \<^verbatim>\<open>Acquire\<close> returns): one handler acquires the
  example satellite and calls its release closure twice. After the first call the
  entry has \<^verbatim>\<open>refs\<close> 0 and the read lock is free. The second call leaves \<^verbatim>\<open>refs\<close> at 0, but
  it is not a no-op: its \<^verbatim>\<open>runlock()\<close> is the \<^verbatim>\<open>RUnlock\<close> of a mutex without readers, which ends
  the process with a fatal error.
\<close>

theorem C1_second_release_is_fatal:
  "map_of (loaded (gc (fst (sysRun exampleSortSlice
      (NewSys exampleGC, [client (TleLn1 exampleSat) (TleLn2 exampleSat) exampleAcquire 2])
      (replicate 14 (0, 100)))))) 1 =
     Some \<lparr>key = 1, satNum = 65271, lastUsed = 100, refs = 0\<rparr> \<and>
   \<not> fatal (fst (sysRun exampleSortSlice
      (NewSys exampleGC, [client (TleLn1 exampleSat) (TleLn2 exampleSat) exampleAcquire 2])
      (replicate 14 (0, 100)))) \<and>
   map_of (loaded (gc (fst (sysRun exampleSortSlice
      (NewSys exampleGC, [client (TleLn1 exampleSat) (TleLn2 exampleSat) exampleAcquire 2])
      (replicate 17 (0, 100)))))) 1 =
     Some \<lparr>key = 1, satNum = 65271, lastUsed = 100, refs = 0\<rparr> \<and>
   fatal (fst (sysRun exampleSortSlice
      (NewSys exampleGC, [client (TleLn1 exampleSat) (TleLn2 exampleSat) exampleAcquire 2])
      (replicate 17 (0, 100))))"
  by (simp add: run_defs tstep_defs lock_defs gc_defs example_parse exampleAcquire_def
        exampleGC_def eval_nat_numeral)

text \<open>
  C1 (amended): over every schedule of any number of goroutines that call \<^verbatim>\<open>Acquire\<close> and
  their release closures (any number of times each) and of sweepers, no entry of the
  registry ever has a negative \<^verbatim>\<open>refs\<close>. A release closure called for an entry whose \<^verbatim>\<open>refs\<close>
  is 0 leaves the registry as it was, so \<^verbatim>\<open>refs\<close> stays 0. The call is a no-op only for a
  closure made with a \<^verbatim>\<open>nil\<close> \<^verbatim>\<open>runlock\<close>; the closure that \<^verbatim>\<open>Acquire\<close> returns calls \<^verbatim>\<open>RUnlock\<close>
  on the key's mutex every time, and when no read lock is held on it the process ends
  with a fatal error.
\<close>

theorem C1_refs_never_negative:
  assumes "refsNonNeg (gc s)"
  shows "refsNonNeg (gc (fst (sysRun sortSlice (s, ths) sched))) \<and>
         (\<forall>k e t. map_of (loaded (gc s)) k = Some e \<and> refs e = 0 \<longrightarrow>
            (\<forall>runlock. gc (makeReleaser k runlock t s) = gc s) \<and>
            makeReleaser k None t s = s \<and>
            (rw_readers (satLocks s k) = 0 \<longrightarrow> fatal (makeReleaser k (Some k) t s)))"
proof -
  have "refsNonNeg (gc (fst (sysRun sortSlice (s, ths) sched)))"
    using assms by (simp add: sysRun_refsNonNeg)
  moreover have "gc (makeReleaser k runlock t s) = gc s"
    if "map_of (loaded (gc s)) k = Some e \<and> refs e = 0" for k e t runlock
    using that by (simp add: makeReleaser_def releaseSection_def RUnlock_def split: option.splits)
  moreover have "makeReleaser k None t s = s"
    if "map_of (loaded (gc s)) k = Some e \<and> refs e = 0" for k e t
    using that by (simp add: makeReleaser_def releaseSection_def)
  moreover have "fatal (makeReleaser k (Some k) t s)"
    if "map_of (loaded (gc s)) k = Some e \<and> refs e = 0" "rw_readers (satLocks s k) = 0" for k e t
    using that by (simp add: makeReleaser_def releaseSection_def RUnlock_def)
  ultimately show ?thesis by blast
qed

theorem C1_refs_never_negative_witness:
  "refsNonNeg (gc (NewSys exampleRegistry)) \<and>
   refsNonNeg (gc (fst (sysRun exampleSortSlice (NewSys exampleRegistry, exampleThreads 3)
      [(0, 100), (1, 101), (0, 102)]))) \<and>
   gc (makeReleaser 2 (Some 2) 50 (NewSys exampleRegistry)) = exampleRegistry \<and>
   makeReleaser 2 None 50 (NewSys exampleRegistry) = NewSys exampleRegistry \<and>
   fatal (makeReleaser 2 (Some 2) 50 (NewSys exampleRegistry))"
  using C1_refs_never_negative [of "NewSys exampleRegistry" exampleSortSlice "exampleThreads 3"
          "[(0, 100), (1, 101), (0, 102)]"]
  by (simp add: refsNonNeg_def NewSys_def exampleRegistry_def)

subsection \<open>Locks and removal\<close>




























text \<open>
  The example registry with the handler and the sweeper. The sweeper ticks at time 100
  and picks the idle satellites 2 and 3; the handler then acquires satellite 2.
\<close>

lemma example_hit_run:
  "sysRun exampleSortSlice (NewSys exampleRegistry, exampleThreads n)
     [(1, 100), (0, 100), (0, 100), (0, 100), (0, 100), (0, 100)] =
   (\<lparr> gc = exampleRegistry\<lparr>loaded :=
             [(1, \<lparr>key = 1, satNum = 10001, lastUsed = 5, refs = 1\<rparr>),
              (2, \<lparr>key = 2, satNum = 65271, lastUsed = 100, refs = 1\<rparr>),
              (3, \<lparr>key = 3, satNum = 10003, lastUsed = 7, refs = 0\<rparr>)]\<rparr>,
      satLocks = (\<lambda>k. \<lparr>rw_readers = 0, rw_writer = False\<rparr>)
                   (2 := \<lparr>rw_readers = 1, rw_writer = False\<rparr>),
      catalogMu = False, fatal = False \<rparr>,
    [(client (TleLn1 exampleSat) (TleLn2 exampleSat) exampleHit n)\<lparr>th_pc := Holding 2\<rparr>,
     sweeper\<lparr>th_pc := RmLockKey ThenSweep [2, 3]\<rparr>])"
  by (simp add: run_defs tstep_defs lock_defs gc_defs example_parse exampleHit_def
        exampleRegistry_def exampleThreads_def)

text \<open>While the handler holds satellite 2, the sweeper waits at \<^verbatim>\<open>mu.Lock()\<close>.\<close>

lemma example_sweeper_waits:
  "sysStep exampleSortSlice
     (sysRun exampleSortSlice (NewSys exampleRegistry, exampleThreads n)
        [(1, 100), (0, 100), (0, 100), (0, 100), (0, 100), (0, 100)]) (1, 101) =
   sysRun exampleSortSlice (NewSys exampleRegistry, exampleThreads n)
        [(1, 100), (0, 100), (0, 100), (0, 100), (0, 100), (0, 100)]"
  unfolding example_hit_run
  by (simp add: sysStep_def tstep_defs lock_defs)

text \<open>
  Once the handler has called its release closure, the sweeper goes on and removes
  satellite 2: the re-check looks at \<^verbatim>\<open>refs\<close> only, not at the time of the last use.
\<close>

lemma example_removed_after_release:
  "map fst (loaded (gc (fst (sysRun exampleSortSlice
     (sysRun exampleSortSlice (NewSys exampleRegistry, exampleThreads 1)
        [(1, 100), (0, 100), (0, 100), (0, 100), (0, 100), (0, 100)])
     [(1, 101), (0, 102), (0, 102), (0, 102), (1, 103), (1, 103), (1, 103), (1, 103)])))) = [1, 3]"
  unfolding example_hit_run
  by (simp add: run_defs tstep_defs lock_defs gc_defs exampleHit_def exampleRegistry_def)


text \<open>
  The limit to one call of the release closure is needed. Here the first handler calls
  its closure twice while a second handler is inside \<^verbatim>\<open>Acquire\<close> for the same satellite:
  the second \<^verbatim>\<open>RUnlock\<close> gives back the read lock of the second handler, the sweeper gets the
  write lock and finds \<^verbatim>\<open>refs == 0\<close>, the second handler then counts its reference, and
  the sweeper deletes the entry, which has \<^verbatim>\<open>refs\<close> 1 at that moment.
\<close>

lemma example_over_release:
  "map_of (loaded (gc (fst (sysRun exampleSortSlice
      (NewSys exampleRegistry,
       [client (TleLn1 exampleSat) (TleLn2 exampleSat) exampleHit 2,
        client (TleLn1 exampleSat) (TleLn2 exampleSat) exampleHit 1, sweeper])
      [(0, 100), (0, 100), (0, 100), (0, 100), (0, 100), (0, 100), (0, 100), (0, 100),
       (1, 150), (1, 150), (1, 150), (1, 150),
       (0, 160), (0, 160), (0, 160),
       (2, 200), (2, 200), (2, 200), (2, 200),
       (1, 210)])))) 2 =
     Some \<lparr>key = 2, satNum = 65271, lastUsed = 210, refs = 1\<rparr> \<and>
   map_of (loaded (gc (fst (sysRun exampleSortSlice
      (NewSys exampleRegistry,
       [client (TleLn1 exampleSat) (TleLn2 exampleSat) exampleHit 2,
        client (TleLn1 exampleSat) (TleLn2 exampleSat) exampleHit 1, sweeper])
      [(0, 100), (0, 100), (0, 100), (0, 100), (0, 100), (0, 100), (0, 100), (0, 100),
       (1, 150), (1, 150), (1, 150), (1, 150),
       (0, 160), (0, 160), (0, 160),
       (2, 200), (2, 200), (2, 200), (2, 200),
       (1, 210),
       (2, 220)])))) 2 = None \<and>
   \<not> fatal (fst (sysRun exampleSortSlice
      (NewSys exampleRegistry,
       [client (TleLn1 exampleSat) (TleLn2 exampleSat) exampleHit 2,
        client (TleLn1 exampleSat) (TleLn2 exampleSat) exampleHit 1, sweeper])
      [(0, 100), (0, 100), (0, 100), (0, 100), (0, 100), (0, 100), (0, 100), (0, 100),
       (1, 150), (1, 150), (1, 150), (1, 150),
       (0, 160), (0, 160), (0, 160),
       (2, 200), (2, 200), (2, 200), (2, 200),
       (1, 210),
       (2, 220)]))"
  by (simp add: run_defs tstep_defs lock_defs gc_defs example_parse exampleHit_def
        exampleRegistry_def)

subsection \<open>The victims of the LRU eviction\<close>

lemma tsBefore_strictWeakOrder: "strictWeakOrder tsBefore"
  by (auto simp: strictWeakOrder_def tsBefore_def)

lemma insertBy_mset: "mset (insertBy lt x xs) = add_mset x (mset xs)"
  by (induction xs) simp_all

lemma insertBy_set: "set (insertBy lt x xs) = insert x (set xs)"
  by (induction xs) auto

lemma insertBy_sorted:
  assumes "strictWeakOrder lt" and "sorted_wrt (\<lambda>a b. \<not> lt b a) xs"
  shows "sorted_wrt (\<lambda>a b. \<not> lt b a) (insertBy lt x xs)"
  using assms(2)
proof (induction xs)
  case Nil
  then show ?case by simp
next
  case (Cons y ys)
  have irr: "\<And>a. \<not> lt a a" and tr: "\<And>a b c. lt a b \<Longrightarrow> lt b c \<Longrightarrow> lt a c"
    using assms(1) unfolding strictWeakOrder_def by blast+
  show ?case
  proof (cases "lt x y")
    case True
    have "\<not> lt y x" using True irr tr by blast
    moreover have "\<forall>z \<in> set ys. \<not> lt z x"
    proof
      fix z assume "z \<in> set ys"
      with Cons.prems have "\<not> lt z y" by simp
      with True tr show "\<not> lt z x" by blast
    qed
    ultimately show ?thesis using True Cons.prems by simp
  next
    case False
    with Cons show ?thesis by (auto simp: insertBy_set)
  qed
qed

lemma exampleSortSlice_contract: "sortSliceContract exampleSortSlice"
proof -
  have "mset (exampleSortSlice lt xs) = mset xs" for lt :: "int \<times> int \<Rightarrow> int \<times> int \<Rightarrow> bool" and xs
    unfolding exampleSortSlice_def by (induction xs) (simp_all add: insertBy_mset)
  moreover have "sorted_wrt (\<lambda>a b. \<not> lt b a) (exampleSortSlice lt xs)"
    if "strictWeakOrder lt" for lt :: "int \<times> int \<Rightarrow> int \<times> int \<Rightarrow> bool" and xs
    unfolding exampleSortSlice_def using that by (induction xs) (simp_all add: insertBy_sorted)
  ultimately show ?thesis unfolding sortSliceContract_def by blast
qed

lemma candidatesOf_idle:
  "(k, ts) \<in> set (candidatesOf g) \<Longrightarrow> \<exists>e. (k, e) \<in> set (loaded g) \<and> refs e = 0 \<and> lastUsed e = ts"
  unfolding candidatesOf_def by auto

lemma sorted_split:
  assumes "sorted (map snd (xs :: (int \<times> int) list))"
  shows "sorted (map snd (take n xs)) \<and> (\<forall>c \<in> set (take n xs). \<forall>r \<in> set (drop n xs). snd c \<le> snd r)"
proof -
  have "sorted (map snd (take n xs) @ map snd (drop n xs))"
    using assms by (simp flip: map_append)
  then show ?thesis by (auto simp: sorted_append)
qed

text \<open>
  What the contract of \<^verbatim>\<open>sort.Slice\<close> gives for the \<^verbatim>\<open>less\<close> function of the source: the
  candidates come back in ascending order of their time stamps.
\<close>

lemma sortSlice_tsBefore:
  assumes "sortSliceContract sortSlice"
  shows "mset (sortSlice tsBefore xs) = mset xs" and "sorted (map snd (sortSlice tsBefore xs))"
proof -
  from assms tsBefore_strictWeakOrder
  have m: "mset (sortSlice tsBefore xs) = mset xs"
    and s: "sorted_wrt (\<lambda>a b. \<not> tsBefore b a) (sortSlice tsBefore xs)"
    unfolding sortSliceContract_def by blast+
  show "mset (sortSlice tsBefore xs) = mset xs" by (rule m)
  have "(\<lambda>a b. \<not> tsBefore b a) = (\<lambda>a b :: int \<times> int. snd a \<le> snd b)"
    by (auto simp: tsBefore_def fun_eq_iff)
  with s show "sorted (map snd (sortSlice tsBefore xs))"
    by (simp add: sorted_map)
qed

lemma evict_split:
  assumes srt: "sortSliceContract sortSlice"
    and pos: "0 < int (length (loaded g)) + need - maxLoaded g"
  shows "\<exists>chosen rest.
            mset chosen + mset rest = mset (candidatesOf g) \<and>
            evictLRUIfNeeded sortSlice g need = map fst chosen \<and>
            length chosen = min (nat (int (length (loaded g)) + need - maxLoaded g))
                                (length (candidatesOf g)) \<and>
            sorted (map snd chosen) \<and>
            (\<forall>c \<in> set chosen. \<forall>r \<in> set rest. snd c \<le> snd r)"
proof -
  define excess where "excess = int (length (loaded g)) + need - maxLoaded g"
  define cs where "cs = sortSlice tsBefore (candidatesOf g)"
  define n where "n = min (nat excess) (length (candidatesOf g))"
  have ms: "mset cs = mset (candidatesOf g)" and so: "sorted (map snd cs)"
    using sortSlice_tsBefore [OF srt] by (simp_all add: cs_def)
  have len: "length cs = length (candidatesOf g)"
    using ms by (rule mset_eq_length)
  have ev: "evictLRUIfNeeded sortSlice g need = map fst (take n cs)"
  proof (cases "length (candidatesOf g) = 0")
    case True
    with pos len show ?thesis
      by (simp add: evictLRUIfNeeded_def Let_def n_def)
  next
    case False
    have "nat (if excess > int (length cs) then int (length cs) else excess) = n"
      using pos len by (auto simp: n_def excess_def min_def)
    with pos False show ?thesis
      by (simp add: evictLRUIfNeeded_def Let_def cs_def [symmetric] excess_def [symmetric])
  qed
  have "mset (take n cs) + mset (drop n cs) = mset (candidatesOf g)"
    using ms by (simp flip: mset_append)
  moreover have "length (take n cs) = min (nat excess) (length (candidatesOf g))"
    using len by (simp add: n_def)
  moreover note ev sorted_split [OF so, of n]
  ultimately show ?thesis
    unfolding excess_def by blast
qed

text \<open>
  C3: with \<open>excess = size + need - maxLoaded\<close>, \<^verbatim>\<open>evictLRUIfNeeded\<close> selects nothing when
  \<open>excess \<le> 0\<close>. Otherwise the candidates (the entries with \<^verbatim>\<open>refs == 0\<close>, \<open>K\<close> of them; an
  entry with \<^verbatim>\<open>refs > 0\<close> is never one) split into the chosen ones and the rest: the victims
  are the keys of the chosen ones, there are \<open>min excess K\<close> of them, they come in ascending
  order of \<^verbatim>\<open>lastUsed\<close>, and no candidate left over is older than a chosen one. With distinct
  timestamps these are exactly the entries with the smallest timestamps. The order
  comes from the \<^verbatim>\<open>less\<close> function that the source passes, \<^verbatim>\<open>ts.Before\<close>; of \<^verbatim>\<open>sort.Slice\<close>
  only its contract is assumed, for every \<^verbatim>\<open>less\<close> function.
\<close>

theorem C3_lru_victims:
  assumes "sortSliceContract sortSlice"
  shows "(int (length (loaded g)) + need - maxLoaded g \<le> 0 \<longrightarrow>
           evictLRUIfNeeded sortSlice g need = []) \<and>
         (0 < int (length (loaded g)) + need - maxLoaded g \<longrightarrow>
           (\<exists>chosen rest.
              mset chosen + mset rest = mset (candidatesOf g) \<and>
              evictLRUIfNeeded sortSlice g need = map fst chosen \<and>
              length chosen = min (nat (int (length (loaded g)) + need - maxLoaded g))
                                  (length (candidatesOf g)) \<and>
              sorted (map snd chosen) \<and>
              (\<forall>c \<in> set chosen. \<forall>r \<in> set rest. snd c \<le> snd r))) \<and>
         length (candidatesOf g) = length (filter (\<lambda>(k, e). refs e = 0) (loaded g)) \<and>
         (\<forall>(k, ts) \<in> set (candidatesOf g).
            \<exists>e. (k, e) \<in> set (loaded g) \<and> refs e = 0 \<and> lastUsed e = ts)"
proof (intro conjI impI)
  show "evictLRUIfNeeded sortSlice g need = []"
    if "int (length (loaded g)) + need - maxLoaded g \<le> 0"
    using that by (simp add: evictLRUIfNeeded_def)
  show "\<exists>chosen rest.
              mset chosen + mset rest = mset (candidatesOf g) \<and>
              evictLRUIfNeeded sortSlice g need = map fst chosen \<and>
              length chosen = min (nat (int (length (loaded g)) + need - maxLoaded g))
                                  (length (candidatesOf g)) \<and>
              sorted (map snd chosen) \<and>
              (\<forall>c \<in> set chosen. \<forall>r \<in> set rest. snd c \<le> snd r)"
    if "0 < int (length (loaded g)) + need - maxLoaded g"
    using assms that by (rule evict_split)
  show "length (candidatesOf g) = length (filter (\<lambda>(k, e). refs e = 0) (loaded g))"
    by (simp add: candidatesOf_def)
  show "\<forall>(k, ts) \<in> set (candidatesOf g).
            \<exists>e. (k, e) \<in> set (loaded g) \<and> refs e = 0 \<and> lastUsed e = ts"
    using candidatesOf_idle by blast
qed

theorem C3_lru_victims_witness:
  "sortSliceContract exampleSortSlice \<and>
   evictLRUIfNeeded exampleSortSlice
      \<lparr>loaded = [(1, \<lparr>key = 1, satNum = 10001, lastUsed = 30, refs = 0\<rparr>),
                 (2, \<lparr>key = 2, satNum = 10002, lastUsed = 10, refs = 0\<rparr>),
                 (3, \<lparr>key = 3, satNum = 10003, lastUsed = 5, refs = 1\<rparr>),
                 (4, \<lparr>key = 4, satNum = 10004, lastUsed = 20, refs = 0\<rparr>)],
       maxLoaded = 3, idleTTL = 10, sweepInterval = 1\<rparr> 1 = [2, 4] \<and>
   (\<exists>chosen rest.
      mset chosen + mset rest = mset [(1, 30), (2, 10), (4, 20 :: int)] \<and>
      [2, 4 :: int] = map fst chosen \<and> length chosen = 2 \<and> sorted (map snd chosen) \<and>
      (\<forall>c \<in> set chosen. \<forall>r \<in> set rest. snd c \<le> snd r))"
  using C3_lru_victims [of exampleSortSlice
      "\<lparr>loaded = [(1, \<lparr>key = 1, satNum = 10001, lastUsed = 30, refs = 0\<rparr>),
                 (2, \<lparr>key = 2, satNum = 10002, lastUsed = 10, refs = 0\<rparr>),
                 (3, \<lparr>key = 3, satNum = 10003, lastUsed = 5, refs = 1\<rparr>),
                 (4, \<lparr>key = 4, satNum = 10004, lastUsed = 20, refs = 0\<rparr>)],
       maxLoaded = 3, idleTTL = 10, sweepInterval = 1\<rparr>" 1]
    exampleSortSlice_contract
  by (simp add: gc_defs exampleSortSlice_def numeral_2_eq_2)

section \<open>Catalog-number parsing\<close>

lemma list5:
  assumes "length (s :: 'a list) = 5"
  obtains a b c d e where "s = [a, b, c, d, e]"
  using assms by (auto simp: length_Suc_conv eval_nat_numeral)

text \<open>
  Every legacy string (five digits, value at least 1) in columns 3-7 is decoded to its
  value, and every Alpha-5 string to \<open>(letter - 'A' + 10) * 10000 + digits\<close>, which lies in
  100000..359999.
\<close>

lemma parseSatNum_legacy:
  assumes "legacy5 s" and "length pre = 2"
  shows "parseSatNum (pre @ s @ rest) = Inr (digitsValue 0 s) \<and>
         1 \<le> digitsValue 0 s \<and> digitsValue 0 s \<le> 99999"
proof -
  from assms(1) have "length s = 5" by (simp add: legacy5_def)
  then obtain a b c d e where s: "s = [a, b, c, d, e]" by (rule list5)
  from assms(1) s have dig: "isDigit a" "isDigit b" "isDigit c" "isDigit d" "isDigit e"
    and pos: "1 \<le> digitsValue 0 s"
    by (simp_all add: legacy5_def)
  have trim: "TrimSpace s = s"
    using dig by (simp add: s TrimSpace_def isDigit_def asciiSpace_def space2_def space3_def)
  have sign: "a \<noteq> CHR ''-''" "a \<noteq> CHR ''+''"
    using dig(1) by (auto simp: isDigit_def byteOf_def)
  have up: "digitsValue 0 s \<le> 99999"
    using dig by (simp add: s isDigit_def)
  have at: "Atoi s = Some (digitsValue 0 s)"
    using dig sign up pos by (simp add: Atoi_def s Let_def)
  show ?thesis
    using assms(2) trim at pos up \<open>length s = 5\<close> by (simp add: parseSatNum_def Let_def)
qed

lemma parseSatNum_alpha5:
  assumes "alpha5 s" and "length pre = 2"
  shows "parseSatNum (pre @ s @ rest) = Inr (alpha5Value s) \<and>
         100000 \<le> alpha5Value s \<and> alpha5Value s \<le> 359999"
proof -
  from assms(1) have "length s = 5" by (simp add: alpha5_def)
  then obtain a b c d e where s: "s = [a, b, c, d, e]" by (rule list5)
  from assms(1) s have ltr: "65 \<le> byteOf a" "byteOf a \<le> 90" "a \<noteq> CHR ''I''" "a \<noteq> CHR ''O''"
    and dig: "isDigit b" "isDigit c" "isDigit d" "isDigit e"
    by (simp_all add: alpha5_def byteOf_def)
  have trim: "TrimSpace s = s"
    using ltr dig by (simp add: s TrimSpace_def isDigit_def asciiSpace_def space2_def space3_def)
  have sign: "a \<noteq> CHR ''-''" "a \<noteq> CHR ''+''" "\<not> isDigit a"
    using ltr by (auto simp: isDigit_def byteOf_def)
  have sign': "b \<noteq> CHR ''-''" "b \<noteq> CHR ''+''"
    using dig(1) by (auto simp: isDigit_def byteOf_def)
  have at: "Atoi s = None"
    using sign by (simp add: Atoi_def s)
  have rng: "0 \<le> digitsValue 0 [b, c, d, e]" "digitsValue 0 [b, c, d, e] \<le> 9999"
    using dig by (simp_all add: isDigit_def)
  have at': "Atoi (tl s) = Some (digitsValue 0 (tl s))"
    using dig sign' rng by (simp add: Atoi_def s Let_def)
  have val: "int (byteOf a - byteOf CHR ''A'' + 10) * 10000 + digitsValue 0 (tl s) = alpha5Value s"
    using ltr by (simp add: alpha5Value_def s byteOf_def)
  have bounds: "100000 \<le> alpha5Value s" "alpha5Value s \<le> 359999"
    using ltr rng by (simp_all add: alpha5Value_def s)
  show ?thesis
    using assms(2) trim at at' val bounds ltr(3,4) ltr(1,2) rng \<open>length s = 5\<close>
    by (simp add: parseSatNum_def Let_def s byteOf_def)
qed

lemma parseSatNum_examples:
  "parseSatNum ''1 25544U 98067A   21275.52543210  .00016717  00000-0  10270-3 0  9042'' = Inr 25544"
  "parseSatNum ''1 A0001U 98067A'' = Inr 100001"
  "parseSatNum ''1 I1234U 98067A'' = Inl (InvalidFormat ''I1234'')"
  by (simp_all add: satnum_defs)

text \<open>
  C4: the parser decodes every legacy five-digit string and every Alpha-5 string as
  stated (the two lemmas above), but it does not reject every other input: columns 3-7
  holding \<^verbatim>\<open>+1234\<close>, which is neither five digits nor a letter and four digits, are accepted
  and yield 1234, because \<^verbatim>\<open>strconv.Atoi\<close> takes a leading sign.
\<close>

theorem C4_signed_satnum_accepted:
  "parseSatNum ''1 +1234U 98067A   21275.52543210  .00016717  00000-0  10270-3 0  9042'' = Inr 1234 \<and>
   \<not> legacy5 ''+1234'' \<and> \<not> alpha5 ''+1234''"
  by (simp add: satnum_defs legacy5_def alpha5_def)

lemma parseSatNum_signed_alpha5:
  "parseSatNum ''1 A-000U 98067A'' = Inr 100000"
  by (simp add: satnum_defs)

section \<open>The DLL gate\<close>

text \<open>
  C5 (as stated, fails when \<^verbatim>\<open>call()\<close> panics): with a free gate of capacity 1 and a
  \<^verbatim>\<open>call\<close> that panics, the permit is taken, the receive that would give it back is
  never reached, and the gate is left full.
\<close>

theorem C5_panic_keeps_permit:
  "WithDllCall (Some \<lparr>gate_cap = 1, gate_len = 0\<rparr>)
     \<lparr>de_ctxDone = False, de_pick = SendPermit, de_call = Panics, de_lastErrMsg = []\<rparr> =
   \<lparr>run_gate = \<lparr>gate_cap = 1, gate_len = 1\<rparr>, run_steps = [AcquirePermit, InvokeCall],
    run_outcome = Panicked\<rparr>"
  by (simp add: WithDllCall_def ensureGate_def)

text \<open>
  C5 (amended): \<^verbatim>\<open>WithDllCall\<close> invokes \<^verbatim>\<open>call\<close> only after it has taken one permit of a gate
  that had room; when it does not invoke it, it fails with the cancellation error (the
  context being done) with the gate untouched, or it is still waiting at the \<^verbatim>\<open>select\<close>.
  When \<^verbatim>\<open>call\<close> returns, the permit is given back, a return code 0 yields no error, and a
  return code \<open>rc \<noteq> 0\<close> yields an error carrying \<open>rc\<close> and the last-error message, read
  between locking and unlocking \<^verbatim>\<open>errMu\<close>. When \<^verbatim>\<open>call\<close> panics, the panic leaves
  \<^verbatim>\<open>WithDllCall\<close> and the permit stays taken.
\<close>

theorem C5_WithDllCall:
  "(InvokeCall \<in> set (run_steps (WithDllCall cur env)) \<longrightarrow>
      gate_len (ensureGate cur) < gate_cap (ensureGate cur) \<and>
      take 2 (run_steps (WithDllCall cur env)) = [AcquirePermit, InvokeCall]) \<and>
   (InvokeCall \<notin> set (run_steps (WithDllCall cur env)) \<longrightarrow>
      run_gate (WithDllCall cur env) = ensureGate cur \<and>
      (run_outcome (WithDllCall cur env) = Returned (Some CtxErr) \<and> de_ctxDone env \<or>
       run_outcome (WithDllCall cur env) = Blocked \<and> \<not> de_ctxDone env)) \<and>
   (InvokeCall \<in> set (run_steps (WithDllCall cur env)) \<and> de_call env = Returns r \<longrightarrow>
      run_gate (WithDllCall cur env) = ensureGate cur \<and>
      (r = 0 \<longrightarrow> run_outcome (WithDllCall cur env) = Returned None) \<and>
      (r \<noteq> 0 \<longrightarrow>
         run_outcome (WithDllCall cur env) = Returned (Some (RcError r (de_lastErrMsg env))) \<and>
         drop 3 (run_steps (WithDllCall cur env)) = [LockErrMu, ReadLastErrMsg, UnlockErrMu])) \<and>
   (InvokeCall \<in> set (run_steps (WithDllCall cur env)) \<and> de_call env = Panics \<longrightarrow>
      run_outcome (WithDllCall cur env) = Panicked \<and>
      ReleasePermit \<notin> set (run_steps (WithDllCall cur env)) \<and>
      gate_len (run_gate (WithDllCall cur env)) = gate_len (ensureGate cur) + 1)"
  by (cases "de_call env") (auto simp: WithDllCall_def Let_def)

theorem C5_WithDllCall_witness:
  "run_outcome (WithDllCall None
     \<lparr>de_ctxDone = False, de_pick = SendPermit, de_call = Returns 3, de_lastErrMsg = ''bad key''\<rparr>) =
     Returned (Some (RcError 3 ''bad key'')) \<and>
   run_gate (WithDllCall None
     \<lparr>de_ctxDone = False, de_pick = SendPermit, de_call = Returns 3, de_lastErrMsg = ''bad key''\<rparr>) =
     \<lparr>gate_cap = 1, gate_len = 0\<rparr> \<and>
   run_outcome (WithDllCall (Some \<lparr>gate_cap = 1, gate_len = 1\<rparr>)
     \<lparr>de_ctxDone = True, de_pick = SendPermit, de_call = Returns 0, de_lastErrMsg = []\<rparr>) =
     Returned (Some CtxErr) \<and>
   gate_len (run_gate (WithDllCall (Some \<lparr>gate_cap = 1, gate_len = 0\<rparr>)
     \<lparr>de_ctxDone = False, de_pick = SendPermit, de_call = Panics, de_lastErrMsg = []\<rparr>)) = 1"
  using
    C5_WithDllCall [of None
      "\<lparr>de_ctxDone = False, de_pick = SendPermit, de_call = Returns 3, de_lastErrMsg = ''bad key''\<rparr>" 3]
    C5_WithDllCall [of "Some \<lparr>gate_cap = 1, gate_len = 1\<rparr>"
      "\<lparr>de_ctxDone = True, de_pick = SendPermit, de_call = Returns 0, de_lastErrMsg = []\<rparr>" 0]
    C5_WithDllCall [of "Some \<lparr>gate_cap = 1, gate_len = 0\<rparr>"
      "\<lparr>de_ctxDone = False, de_pick = SendPermit, de_call = Panics, de_lastErrMsg = []\<rparr>" 0]
  by (simp add: WithDllCall_def ensureGate_def SetDllGate_def)

section \<open>The ephemeris stream\<close>

subsection \<open>Native errors in the chunk loop\<close>





subsection \<open>Unparseable periods\<close>

lemma runAnalytGenEphems_panic:
  assumes "resolveTimeGrid task req = Some grid"
    and "TimeStepType grid = Some (EphemTimeGrid_KnownTimeStepPeriod p)"
    and "dm p = None"
  shows "runAnalytGenEphems D dm req task taskIdx satKey chunkSize envs =
         loopStop [] (LoopPanic (PanicDurationParse p))"
  using assms
  by (simp add: runAnalytGenEphems_def isDynamicTimeStep_def getKnownTimeStep_def Let_def)

lemma to_end_tasksMore [simp]: "to_end (tasksMore lo r) = to_end r"
  by (simp add: tasksMore_def)

lemma to_end_tasksStop [simp]: "to_end (tasksStop g lo e) = e"
  by (simp add: tasksStop_def)

lemma ephemTasks_not_ok:
  assumes "task \<in> set tasks"
    and "resolveTimeGrid task (ef_req E) = Some grid"
    and "TimeStepType grid = Some (EphemTimeGrid_KnownTimeStepPeriod p)"
    and "ef_durationMinutes E p = None"
  shows "to_end (ephemTasks E tenv g taskIdx tasks) \<noteq> EphemOK"
  using assms(1)
proof (induction tasks arbitrary: g taskIdx)
  case Nil
  then show ?case by simp
next
  case (Cons t tasks)
  show ?case
  proof (cases "t = task")
    case True
    have "\<And>k. runAnalytGenEphems (ef_DYN_SS_BASIC E) (ef_durationMinutes E) (ef_req E)
              task taskIdx k (ef_StreamChunkSize E) (te_gen (tenv taskIdx)) =
            loopStop [] (LoopPanic (PanicDurationParse p))"
      using assms(2-4) by (rule runAnalytGenEphems_panic)
    with True show ?thesis
      by (simp add: loopStop_def Let_def split: prod.splits sum.splits option.splits)
  next
    case False
    with Cons.prems have "task \<in> set tasks" by simp
    then have "\<And>g i. to_end (ephemTasks E tenv g i tasks) \<noteq> EphemOK"
      by (rule Cons.IH)
    then show ?thesis
      by (simp add: Let_def split: prod.splits sum.splits option.splits loop_end.splits)
  qed
qed

lemma ephemTasks_not_InvalidArgument:
  "to_end (ephemTasks E tenv g i tasks) \<noteq> StatusInvalidArgument e"
  by (induction tasks arbitrary: g i)
     (simp_all add: Let_def split: prod.splits sum.splits option.splits loop_end.splits)

lemma Ephem_InvalidArgument_iff:
  "eo_end (Ephem E tenv sendFails g) = StatusInvalidArgument e \<longleftrightarrow>
   validateAnalytEphemRequest (ef_req E) = Some e"
proof (cases "validateAnalytEphemRequest (ef_req E)")
  case (Some a)
  then show ?thesis by (simp add: Ephem_def)
next
  case None
  with ephemTasks_not_InvalidArgument [of E tenv g 0 "Tasks (ef_req E)"] show ?thesis
    by (auto simp: Ephem_def Let_def split: ephem_end.splits)
qed

lemma validateGrid_period:
  "TimeStepType grid = Some (EphemTimeGrid_KnownTimeStepPeriod p) \<Longrightarrow>
   validateGrid grid = validateGrid (grid\<lparr>TimeStepType := Some (EphemTimeGrid_KnownTimeStepPeriod q)\<rparr>)"
  by (simp add: validateGrid_def GetKnownTimeStepDs50_def)

text \<open>
  Whatever the request, a task whose resolved time grid carries a known period that the
  duration parser rejects keeps the request from succeeding. The request is answered
  with \<^verbatim>\<open>InvalidArgument\<close> exactly when validation rejects it, and validation does not
  depend on the period string. Whenever \<^verbatim>\<open>runAnalytGenEphems\<close> is reached for that task it
  panics with the parse error, before any native call and any chunk; so when the request
  is valid, that task is the first one, the context is not done and the satellite is
  acquired, the handler ends in that panic with nothing sent.
\<close>

lemma Ephem_unparsable_period:
  assumes "task \<in> set (Tasks (ef_req E))"
    and "resolveTimeGrid task (ef_req E) = Some grid"
    and "TimeStepType grid = Some (EphemTimeGrid_KnownTimeStepPeriod p)"
    and "ef_durationMinutes E p = None"
  shows "eo_end (Ephem E tenv sendFails g) \<noteq> EphemOK \<and>
         (\<forall>e. eo_end (Ephem E tenv sendFails g) = StatusInvalidArgument e \<longleftrightarrow>
               validateAnalytEphemRequest (ef_req E) = Some e) \<and>
         (\<forall>q. validateGrid grid =
               validateGrid (grid\<lparr>TimeStepType := Some (EphemTimeGrid_KnownTimeStepPeriod q)\<rparr>)) \<and>
         (\<forall>taskIdx satKey envs.
            runAnalytGenEphems (ef_DYN_SS_BASIC E) (ef_durationMinutes E) (ef_req E) task taskIdx
              satKey (ef_StreamChunkSize E) envs =
            \<lparr>lo_chunks = [], lo_calls = [], lo_end = LoopPanic (PanicDurationParse p)\<rparr>) \<and>
         (validateAnalytEphemRequest (ef_req E) = None \<and> hd (Tasks (ef_req E)) = task \<and>
          \<not> te_ctxDone (tenv 0) \<and>
          (\<exists>k. snd (Acquire (ef_sortSlice E) g (GetTleLn1 (Sat task)) (GetTleLn2 (Sat task))
                      (te_acquire (tenv 0))) = Some (Inr k)) \<longrightarrow>
            eo_end (Ephem E tenv sendFails g) = EphemPanic (PanicDurationParse p) \<and>
            eo_sent (Ephem E tenv sendFails g) = [] \<and>
            eo_calls (Ephem E tenv sendFails g) = [])"
proof (intro conjI allI impI)
  show "eo_end (Ephem E tenv sendFails g) \<noteq> EphemOK"
  proof (cases "validateAnalytEphemRequest (ef_req E)")
    case (Some a)
    then show ?thesis by (simp add: Ephem_def)
  next
    case None
    have "to_end (ephemTasks E tenv g 0 (Tasks (ef_req E))) \<noteq> EphemOK"
      using assms by (rule ephemTasks_not_ok)
    with None show ?thesis
      by (simp add: Ephem_def Let_def split: ephem_end.splits)
  qed
  show "eo_end (Ephem E tenv sendFails g) = StatusInvalidArgument e \<longleftrightarrow>
        validateAnalytEphemRequest (ef_req E) = Some e" for e
    by (rule Ephem_InvalidArgument_iff)
  show "validateGrid grid =
        validateGrid (grid\<lparr>TimeStepType := Some (EphemTimeGrid_KnownTimeStepPeriod q)\<rparr>)" for q
    using assms(3) by (rule validateGrid_period)
  show "runAnalytGenEphems (ef_DYN_SS_BASIC E) (ef_durationMinutes E) (ef_req E) task taskIdx
              satKey (ef_StreamChunkSize E) envs =
            \<lparr>lo_chunks = [], lo_calls = [], lo_end = LoopPanic (PanicDurationParse p)\<rparr>"
    for taskIdx satKey envs
    using runAnalytGenEphems_panic [where dm = "ef_durationMinutes E", OF assms(2-4)]
    by (simp add: loopStop_def)
next
  assume a: "validateAnalytEphemRequest (ef_req E) = None \<and> hd (Tasks (ef_req E)) = task \<and>
          \<not> te_ctxDone (tenv 0) \<and>
          (\<exists>k. snd (Acquire (ef_sortSlice E) g (GetTleLn1 (Sat task)) (GetTleLn2 (Sat task))
                      (te_acquire (tenv 0))) = Some (Inr k))"
  from assms(1) a obtain rest where ts: "Tasks (ef_req E) = task # rest"
    by (cases "Tasks (ef_req E)") auto
  from a obtain g1 k where acq:
    "Acquire (ef_sortSlice E) g (GetTleLn1 (Sat task)) (GetTleLn2 (Sat task)) (te_acquire (tenv 0)) =
       (g1, Some (Inr k))"
    by (cases "Acquire (ef_sortSlice E) g (GetTleLn1 (Sat task)) (GetTleLn2 (Sat task))
                 (te_acquire (tenv 0))") auto
  have run: "runAnalytGenEphems (ef_DYN_SS_BASIC E) (ef_durationMinutes E) (ef_req E)
              task 0 k (ef_StreamChunkSize E) (te_gen (tenv 0)) =
            loopStop [] (LoopPanic (PanicDurationParse p))"
    using assms(2-4) by (rule runAnalytGenEphems_panic)
  have r: "ephemTasks E tenv g 0 (Tasks (ef_req E)) =
        tasksStop g1 (loopStop [] (LoopPanic (PanicDurationParse p))) (EphemPanic (PanicDurationParse p))"
    using a acq run by (simp add: ts loopStop_def Let_def)
  show "eo_end (Ephem E tenv sendFails g) = EphemPanic (PanicDurationParse p)"
    using a by (simp add: Ephem_def r tasksStop_def loopStop_def Let_def)
  show "eo_sent (Ephem E tenv sendFails g) = []"
    using a by (simp add: Ephem_def r tasksStop_def loopStop_def Let_def split: option.splits)
  show "eo_calls (Ephem E tenv sendFails g) = []"
    using a by (simp add: Ephem_def r tasksStop_def loopStop_def Let_def)
qed

text \<open>
  C7 (the code departs from the claim): the example request with the known period
  \<^verbatim>\<open>abc\<close>, which is not an ISO-8601 duration, passes validation, and the handler then
  panics in \<^verbatim>\<open>getKnownTimeStep\<close> (\<^verbatim>\<open>panic(err)\<close> on the error of \<^verbatim>\<open>duration.Parse\<close>). No
  \<^verbatim>\<open>InvalidArgument\<close> status is returned; the server installs no interceptor that
  recovers, so the panic ends the process. The other errors of the handler, among them
  those of validation, are returned as a status.
\<close>

theorem C7_unparsable_period_panics:
  "validateAnalytEphemRequest (exampleRequest (Some (EphemTimeGrid_KnownTimeStepPeriod ''abc''))) = None \<and>
   eo_end (Ephem (exampleFixed (Some (EphemTimeGrid_KnownTimeStepPeriod ''abc'')))
             (exampleTaskEnv []) None (NewSys exampleGC)) =
     EphemPanic (PanicDurationParse ''abc'')"
  by (simp add: ephem_defs example_defs Let_def example_Acquire example_lines)

subsection \<open>Chunk ids and point counts\<close>

lemma Sgp4GenEphems_flat_length:
  assumes "Sgp4GenEphems D env k ts te st ty cs = (calls, Inr (flat, n, nxt, dn, ec))" and "0 < n"
  shows "length flat = nat (n * 7)"
  using assms by (auto simp: Sgp4GenEphems_def Let_def split: if_splits)

lemma buildEphemResponse_ok:
  assumes "buildEphemResponse req task i flat n c = Inr x" and "length flat = nat (n * 7)" and "0 < n"
  shows "StreamId x = int i \<and> StreamChunkId x = c \<and> chunkCountOk x"
proof -
  have "length flat div 7 = nat n"
    using assms(2,3) by (simp add: nat_mult_distrib)
  with assms(1) show ?thesis
    by (auto simp: buildEphemResponse_def flatEphemsToEphemDataArr_def chunkCountOk_def
          split: if_splits)
qed

lemma ids_Cons:
  "map (\<lambda>j. c + int j) [0..<Suc m] = c # map (\<lambda>j. (c + 1) + int j) [0..<m]"
  by (simp add: map_upt_Suc del: upt_Suc)

lemma chunkLoop_chunks:
  "map StreamChunkId (lo_chunks (chunkLoop F envs c ts)) =
     map (\<lambda>j. c + int j) [0..<length (lo_chunks (chunkLoop F envs c ts))] \<and>
   (\<forall>x \<in> set (lo_chunks (chunkLoop F envs c ts)). StreamId x = int (lf_taskIdx F) \<and> chunkCountOk x)"
proof (induction envs arbitrary: c ts)
  case Nil
  then show ?case by (simp add: loopStop_def)
next
  case (Cons env envs)
  obtain calls r where g: "Sgp4GenEphems (lf_DYN_SS_BASIC F) env (lf_satKey F) ts (lf_timeEnd F)
        (lf_timeStep F) (to_int32 (EphemType (lf_req F))) (to_int32 (lf_chunkSize F)) = (calls, r)"
    by (cases "Sgp4GenEphems (lf_DYN_SS_BASIC F) env (lf_satKey F) ts (lf_timeEnd F)
        (lf_timeStep F) (to_int32 (EphemType (lf_req F))) (to_int32 (lf_chunkSize F))")
  show ?case
  proof (cases r)
    case (Inl p)
    with g show ?thesis by (simp add: loopStop_def)
  next
    case (Inr v)
    then obtain flat n nxt dn ec where v: "r = Inr (flat, n, nxt, dn, ec)"
      by (cases v) auto
    show ?thesis
    proof (cases "0 < n")
      case False
      with g v Cons.IH [of c nxt] show ?thesis
        by (simp add: loopStop_def loopMore_def)
    next
      case True
      with g v have len: "length flat = nat (n * 7)"
        using Sgp4GenEphems_flat_length by blast
      show ?thesis
      proof (cases "buildEphemResponse (lf_req F) (lf_task F) (lf_taskIdx F) flat n c")
        case (Inl e)
        with g v True show ?thesis by (simp add: loopStop_def)
      next
        case (Inr x)
        with len True have x: "StreamId x = int (lf_taskIdx F)" "StreamChunkId x = c" "chunkCountOk x"
          using buildEphemResponse_ok by blast+
        from g v True Inr x Cons.IH [of "c + 1" nxt] show ?thesis
          by (simp add: loopStop_def loopMore_def ids_Cons del: upt_Suc)
      qed
    qed
  qed
qed

lemma runAnalytGenEphems_chunks:
  "map StreamChunkId (lo_chunks (runAnalytGenEphems D dm req task i k cs envs)) =
     map int [0..<length (lo_chunks (runAnalytGenEphems D dm req task i k cs envs))] \<and>
   (\<forall>x \<in> set (lo_chunks (runAnalytGenEphems D dm req task i k cs envs)).
      StreamId x = int i \<and> chunkCountOk x)"
proof (cases "resolveTimeGrid task req")
  case None
  then show ?thesis by (simp add: runAnalytGenEphems_def loopStop_def)
next
  case (Some grid)
  show ?thesis
  proof (cases "if isDynamicTimeStep grid then Inr (- 1) else getKnownTimeStep dm grid")
    case (Inl p)
    with Some show ?thesis by (simp add: runAnalytGenEphems_def loopStop_def Let_def)
  next
    case (Inr st)
    with Some chunkLoop_chunks [of "\<lparr> lf_DYN_SS_BASIC = D, lf_req = req, lf_task = task,
                              lf_taskIdx = i, lf_satKey = k,
                              lf_timeEnd = (case TimeEndUtc grid of
                               Some u \<Rightarrow> UtcToDS50 u | None \<Rightarrow> TimeEndDs50 grid),
                              lf_timeStep = st, lf_chunkSize = cs \<rparr>" envs 0]
    show ?thesis by (simp add: runAnalytGenEphems_def Let_def)
  qed
qed

lemma streamOk_single:
  assumes "map StreamChunkId xs = map int [0..<length xs]"
    and "\<forall>x \<in> set xs. StreamId x = int i \<and> chunkCountOk x"
  shows "streamOk i xs"
proof -
  have "filter (\<lambda>x. StreamId x = int j) xs = (if j = i then xs else [])" for j
    using assms(2) by (auto simp: filter_id_conv filter_empty_conv)
  with assms show ?thesis by (simp add: streamOk_def)
qed

lemma streamOk_append:
  assumes "map StreamChunkId xs = map int [0..<length xs]"
    and "\<forall>x \<in> set xs. StreamId x = int i \<and> chunkCountOk x"
    and "streamOk (Suc i) ys"
  shows "streamOk i (xs @ ys)"
proof -
  have fx: "filter (\<lambda>x. StreamId x = int j) xs = (if j = i then xs else [])" for j
    using assms(2) by (auto simp: filter_id_conv filter_empty_conv)
  have fy: "filter (\<lambda>x. StreamId x = int i) ys = []"
    using assms(3) by (fastforce simp: streamOk_def filter_empty_conv)
  have "map StreamChunkId (filter (\<lambda>x. StreamId x = int j) (xs @ ys)) =
        map int [0..<length (filter (\<lambda>x. StreamId x = int j) (xs @ ys))]" for j
  proof (cases "j = i")
    case True
    with fx fy assms(1) show ?thesis by simp
  next
    case False
    with fx assms(3) show ?thesis by (simp add: streamOk_def)
  qed
  moreover have "\<forall>x \<in> set (xs @ ys). int i \<le> StreamId x \<and> chunkCountOk x"
    using assms(2,3) by (fastforce simp: streamOk_def)
  ultimately show ?thesis by (simp add: streamOk_def)
qed

lemma streamOk_Nil [simp]: "streamOk i []"
  by (simp add: streamOk_def)

lemma ephemTasks_streamOk: "streamOk taskIdx (to_queued (ephemTasks E tenv g taskIdx tasks))"
proof (induction tasks arbitrary: g taskIdx)
  case Nil
  then show ?case by (simp add: tasksStop_def loopStop_def)
next
  case (Cons task tasks)
  show ?case
  proof (cases "te_ctxDone (tenv taskIdx)")
    case True
    then show ?thesis by (simp add: tasksStop_def loopStop_def)
  next
    case False
    obtain g1 a where acq: "Acquire (ef_sortSlice E) g (GetTleLn1 (Sat task)) (GetTleLn2 (Sat task))
                  (te_acquire (tenv taskIdx)) = (g1, a)"
      by (cases "Acquire (ef_sortSlice E) g (GetTleLn1 (Sat task)) (GetTleLn2 (Sat task))
                  (te_acquire (tenv taskIdx))")
    show ?thesis
    proof (cases a)
      case None
      with False acq show ?thesis by (simp add: tasksStop_def loopStop_def)
    next
      case (Some r)
      show ?thesis
      proof (cases r)
        case (Inl e)
        with False acq Some show ?thesis by (simp add: tasksStop_def loopStop_def)
      next
        case (Inr k)
        define lo where "lo = runAnalytGenEphems (ef_DYN_SS_BASIC E) (ef_durationMinutes E) (ef_req E)
                            task taskIdx k (ef_StreamChunkSize E) (te_gen (tenv taskIdx))"
        have ch: "map StreamChunkId (lo_chunks lo) = map int [0..<length (lo_chunks lo)]"
             "\<forall>x \<in> set (lo_chunks lo). StreamId x = int taskIdx \<and> chunkCountOk x"
          using runAnalytGenEphems_chunks unfolding lo_def by blast+
        have one: "streamOk taskIdx (lo_chunks lo)"
          using ch by (rule streamOk_single)
        have more: "streamOk taskIdx (lo_chunks lo @ to_queued (ephemTasks E tenv g' (Suc taskIdx) tasks))" for g'
          using ch Cons.IH by (rule streamOk_append)
        from False acq Some Inr one more show ?thesis
          by (simp add: lo_def [symmetric] Let_def tasksStop_def tasksMore_def split: loop_end.splits)
      qed
    qed
  qed
qed

lemma Ephem_OK_sent:
  assumes "eo_end (Ephem E tenv sendFails g) = EphemOK"
  shows "validateAnalytEphemRequest (ef_req E) = None \<and>
         eo_sent (Ephem E tenv sendFails g) = to_queued (ephemTasks E tenv g 0 (Tasks (ef_req E)))"
proof (cases "validateAnalytEphemRequest (ef_req E)")
  case (Some e)
  with assms show ?thesis by (simp add: Ephem_def)
next
  case None
  with assms show ?thesis
    by (cases sendFails)
       (auto simp: Ephem_def Let_def split: ephem_end.splits if_splits)
qed

text \<open>
  C9: when \<^verbatim>\<open>Ephem\<close> completes successfully, the chunks delivered to the client are all the
  chunks that were queued, in their order; for every stream id the chunk ids of its
  chunks are 0, 1, ..., K - 1 in this order; and every chunk declares in
  \<^verbatim>\<open>EphemPointsCount\<close> the number of points it carries.
\<close>

theorem C9_chunk_ids_and_counts:
  assumes "eo_end (Ephem E tenv sendFails g) = EphemOK"
  shows "(\<forall>j. map StreamChunkId (filter (\<lambda>x. StreamId x = int j) (eo_sent (Ephem E tenv sendFails g))) =
              map int [0..<length (filter (\<lambda>x. StreamId x = int j) (eo_sent (Ephem E tenv sendFails g)))]) \<and>
         (\<forall>x \<in> set (eo_sent (Ephem E tenv sendFails g)).
              EphemPointsCount (Result x) = int (length (EphemData (Result x)))) \<and>
         eo_sent (Ephem E tenv sendFails g) = to_queued (ephemTasks E tenv g 0 (Tasks (ef_req E)))"
proof -
  have s: "eo_sent (Ephem E tenv sendFails g) = to_queued (ephemTasks E tenv g 0 (Tasks (ef_req E)))"
    using Ephem_OK_sent [OF assms] by simp
  have "streamOk 0 (eo_sent (Ephem E tenv sendFails g))"
    unfolding s by (rule ephemTasks_streamOk)
  with s show ?thesis
    by (simp add: streamOk_def chunkCountOk_def)
qed

theorem C9_chunk_ids_and_counts_witness:
  "eo_end (Ephem (exampleFixed (Some (EphemTimeGrid_KnownTimeStepDs50 (1 / 720))))
      (exampleTaskEnv
         [examplePass \<lparr>cr_rc = 0, cr_got = 2,
             cr_buf = [27744.5, 1, 2, 3, 4, 5, 6, 27744.6, 7, 8, 9, 10, 11, 12]\<rparr> [],
          examplePass \<lparr>cr_rc = 0, cr_got = 1,
             cr_buf = [27744.7, 1, 2, 3, 4, 5, 6, 0, 0, 0, 0, 0, 0, 0]\<rparr> []])
      None (NewSys exampleGC)) = EphemOK \<and>
   map (\<lambda>x. (StreamId x, StreamChunkId x, EphemPointsCount (Result x), length (EphemData (Result x))))
     (eo_sent (Ephem (exampleFixed (Some (EphemTimeGrid_KnownTimeStepDs50 (1 / 720))))
      (exampleTaskEnv
         [examplePass \<lparr>cr_rc = 0, cr_got = 2,
             cr_buf = [27744.5, 1, 2, 3, 4, 5, 6, 27744.6, 7, 8, 9, 10, 11, 12]\<rparr> [],
          examplePass \<lparr>cr_rc = 0, cr_got = 1,
             cr_buf = [27744.7, 1, 2, 3, 4, 5, 6, 0, 0, 0, 0, 0, 0, 0]\<rparr> []])
      None (NewSys exampleGC))) = [(0, 0, 2, 2), (0, 1, 1, 1)]"
  using C9_chunk_ids_and_counts [of "exampleFixed (Some (EphemTimeGrid_KnownTimeStepDs50 (1 / 720)))"
      "exampleTaskEnv
         [examplePass \<lparr>cr_rc = 0, cr_got = 2,
             cr_buf = [27744.5, 1, 2, 3, 4, 5, 6, 27744.6, 7, 8, 9, 10, 11, 12]\<rparr> [],
          examplePass \<lparr>cr_rc = 0, cr_got = 1,
             cr_buf = [27744.7, 1, 2, 3, 4, 5, 6, 0, 0, 0, 0, 0, 0, 0]\<rparr> []]" None "NewSys exampleGC"]
  by (simp add: ephem_defs example_defs Let_def example_Acquire example_lines
        makeReleaser_def releaseSection_def RUnlock_def)

subsection \<open>A grid without a time step\<close>

lemma getKnownTimeStep_unset:
  "TimeStepType grid = None \<Longrightarrow> getKnownTimeStep dm grid = Inr 0"
  by (simp add: getKnownTimeStep_def)

lemma validateGrid_unset:
  "TimeStepType grid = None \<Longrightarrow>
   validateGrid grid =
     (if TimeStartUtc grid \<noteq> None \<and> TimeStartDs50 grid \<noteq> 0 then Some StartTimeTwice
      else if TimeEndUtc grid \<noteq> None \<and> TimeEndDs50 grid \<noteq> 0 then Some EndTimeTwice
      else None)"
  by (simp add: validateGrid_def GetKnownTimeStepPeriod_def)

lemma Sgp4GenEphems_calls:
  "Sgp4GenEphems D env k ts te st ty cs = (calls, r) \<Longrightarrow> c \<in> set calls \<Longrightarrow>
   cc_stepSize c = (if st = - 1 then D else st)"
  by (auto simp: Sgp4GenEphems_def Let_def split: if_splits)

lemma Sgp4GenEphems_called:
  "\<not> ge_mallocFails env \<Longrightarrow> fst (Sgp4GenEphems D env k ts te st ty cs) \<noteq> []"
  by (auto simp: Sgp4GenEphems_def Let_def split: if_splits)

lemma chunkLoop_step:
  "c \<in> set (lo_calls (chunkLoop F envs chunkID timeStart)) \<Longrightarrow>
   cc_stepSize c = (if lf_timeStep F = - 1 then lf_DYN_SS_BASIC F else lf_timeStep F)"
proof (induction envs arbitrary: chunkID timeStart)
  case Nil
  then show ?case by (simp add: loopStop_def)
next
  case (Cons env envs)
  obtain calls r where g: "Sgp4GenEphems (lf_DYN_SS_BASIC F) env (lf_satKey F) timeStart (lf_timeEnd F)
        (lf_timeStep F) (to_int32 (EphemType (lf_req F))) (to_int32 (lf_chunkSize F)) = (calls, r)"
    by (cases "Sgp4GenEphems (lf_DYN_SS_BASIC F) env (lf_satKey F) timeStart (lf_timeEnd F)
        (lf_timeStep F) (to_int32 (EphemType (lf_req F))) (to_int32 (lf_chunkSize F))")
  have here: "c \<in> set calls \<Longrightarrow> ?case"
    using Sgp4GenEphems_calls [OF g] by simp
  from Cons.prems g show ?case
    by (auto simp: loopStop_def loopMore_def here Cons.IH split: sum.splits prod.splits if_splits)
qed

lemma chunkLoop_called:
  "\<not> ge_mallocFails env \<Longrightarrow> lo_calls (chunkLoop F (env # envs) chunkID timeStart) \<noteq> []"
proof -
  assume a: "\<not> ge_mallocFails env"
  obtain calls r where g: "Sgp4GenEphems (lf_DYN_SS_BASIC F) env (lf_satKey F) timeStart (lf_timeEnd F)
        (lf_timeStep F) (to_int32 (EphemType (lf_req F))) (to_int32 (lf_chunkSize F)) = (calls, r)"
    by (cases "Sgp4GenEphems (lf_DYN_SS_BASIC F) env (lf_satKey F) timeStart (lf_timeEnd F)
        (lf_timeStep F) (to_int32 (EphemType (lf_req F))) (to_int32 (lf_chunkSize F))")
  with Sgp4GenEphems_called [OF a, of "lf_DYN_SS_BASIC F" "lf_satKey F" timeStart "lf_timeEnd F"
        "lf_timeStep F" "to_int32 (EphemType (lf_req F))" "to_int32 (lf_chunkSize F)"]
  have "calls \<noteq> []" by simp
  with g show ?thesis
    by (auto simp: loopStop_def loopMore_def split: sum.splits prod.splits if_splits)
qed

text \<open>
  C10: when the resolved time grid of a task carries no time-step variant, validation of
  the grid never reports a time-step error (its verdict depends on the start and end
  fields only, and is the one a dynamic step would get), the step is not taken as
  dynamic, \<^verbatim>\<open>getKnownTimeStep\<close> returns 0, every native call of the task is made with step
  size 0, and the first pass makes such a call unless the buffer allocation fails.
\<close>

theorem C10_unset_step_is_zero:
  assumes "resolveTimeGrid task req = Some grid" and "TimeStepType grid = None"
  shows "validateGrid grid \<noteq> Some TimeStepTwice \<and>
         validateGrid grid = validateGrid (grid\<lparr>TimeStepType := Some (EphemTimeGrid_DynamicTimeStep True)\<rparr>) \<and>
         \<not> isDynamicTimeStep grid \<and> getKnownTimeStep durationMinutes grid = Inr 0 \<and>
         (\<forall>c \<in> set (lo_calls (runAnalytGenEphems DYN_SS_BASIC durationMinutes req task taskIdx
                                 satKey chunkSize envs)). cc_stepSize c = 0) \<and>
         (\<forall>env envs'. envs = env # envs' \<and> \<not> ge_mallocFails env \<longrightarrow>
            lo_calls (runAnalytGenEphems DYN_SS_BASIC durationMinutes req task taskIdx
                        satKey chunkSize envs) \<noteq> [])"
proof -
  have run: "runAnalytGenEphems DYN_SS_BASIC durationMinutes req task taskIdx satKey chunkSize envs =
     chunkLoop \<lparr> lf_DYN_SS_BASIC = DYN_SS_BASIC, lf_req = req, lf_task = task,
                 lf_taskIdx = taskIdx, lf_satKey = satKey,
                 lf_timeEnd = (case TimeEndUtc grid of Some u \<Rightarrow> UtcToDS50 u | None \<Rightarrow> TimeEndDs50 grid),
                 lf_timeStep = 0, lf_chunkSize = chunkSize \<rparr>
        envs 0 (case TimeStartUtc grid of Some u \<Rightarrow> UtcToDS50 u | None \<Rightarrow> TimeStartDs50 grid)"
    using assms
    by (simp add: runAnalytGenEphems_def isDynamicTimeStep_def getKnownTimeStep_def Let_def)
  have "validateGrid grid \<noteq> Some TimeStepTwice"
    using assms(2) by (simp add: validateGrid_unset)
  moreover have "validateGrid grid =
      validateGrid (grid\<lparr>TimeStepType := Some (EphemTimeGrid_DynamicTimeStep True)\<rparr>)"
    using assms(2) by (simp add: validateGrid_def GetKnownTimeStepPeriod_def)
  moreover have "\<not> isDynamicTimeStep grid"
    using assms(2) by (simp add: isDynamicTimeStep_def)
  moreover have "getKnownTimeStep durationMinutes grid = Inr 0"
    using assms(2) by (rule getKnownTimeStep_unset)
  moreover have "\<forall>c \<in> set (lo_calls (runAnalytGenEphems DYN_SS_BASIC durationMinutes req task
                     taskIdx satKey chunkSize envs)). cc_stepSize c = 0"
    unfolding run using chunkLoop_step by fastforce
  moreover have "\<forall>env envs'. envs = env # envs' \<and> \<not> ge_mallocFails env \<longrightarrow>
       lo_calls (runAnalytGenEphems DYN_SS_BASIC durationMinutes req task taskIdx
                        satKey chunkSize envs) \<noteq> []"
    unfolding run using chunkLoop_called by blast
  ultimately show ?thesis by blast
qed

theorem C10_unset_step_is_zero_witness:
  "resolveTimeGrid exampleTask (exampleRequest None) = Some (exampleGrid None) \<and>
   validateAnalytEphemRequest (exampleRequest None) = None \<and>
   eo_end (Ephem (exampleFixed None)
      (exampleTaskEnv [examplePass \<lparr>cr_rc = 0, cr_got = 0, cr_buf = []\<rparr> []]) None (NewSys exampleGC)) = EphemOK \<and>
   map cc_stepSize (eo_calls (Ephem (exampleFixed None)
      (exampleTaskEnv [examplePass \<lparr>cr_rc = 0, cr_got = 0, cr_buf = []\<rparr> []]) None (NewSys exampleGC))) = [0] \<and>
   map cc_stepSize (lo_calls (runAnalytGenEphems (- 1) (\<lambda>p. None) (exampleRequest None) exampleTask 0 1 2
      [examplePass \<lparr>cr_rc = 0, cr_got = 0, cr_buf = []\<rparr> []])) = [0]"
  using C10_unset_step_is_zero [of exampleTask "exampleRequest None" "exampleGrid None" "\<lambda>p. None"
      "- 1" 0 1 2 "[examplePass \<lparr>cr_rc = 0, cr_got = 0, cr_buf = []\<rparr> []]"]
  by (simp add: ephem_defs example_defs Let_def example_Acquire example_lines
        makeReleaser_def releaseSection_def RUnlock_def)

section \<open>Flat-array conversion\<close>

lemma flatEphems_ok:
  assumes "7 \<le> length flat" and "length flat mod 7 = 0"
  shows "flatEphemsToEphemDataArr flat = Inr (map (ephemAt flat) [0..<length flat div 7])"
  using assms by (simp add: flatEphemsToEphemDataArr_def)

text \<open>
  C8 (as stated, fails at the empty sequence): a flat sequence of length 0 has a length
  that is a multiple of 7, yet the conversion rejects it, because the first check
  refuses every sequence shorter than 7.
\<close>

theorem C8_empty_flat_rejected:
  "length ([] :: float64 list) mod 7 = 0 \<and>
   flatEphemsToEphemDataArr [] = Inl FlatTooShort"
  by (simp add: flatEphemsToEphemDataArr_def)

text \<open>
  C8 (amended): every flat sequence of length \<open>L \<ge> 7\<close> with \<open>L mod 7 = 0\<close> is mapped to
  exactly \<open>L / 7\<close> points, the \<open>i\<close>-th point holding the seven values at positions
  \<open>7 i .. 7 i + 6\<close> in the field order (t_ds50, x, y, z, vx, vy, vz); the conversion
  fails for every sequence of length \<open>L < 7\<close> (the empty one included) and for every
  length with \<open>L mod 7 \<noteq> 0\<close>.
\<close>

theorem C8_flat_conversion:
  "(7 \<le> length flat \<and> length flat mod 7 = 0 \<longrightarrow>
      (\<exists>pts. flatEphemsToEphemDataArr flat = Inr pts \<and>
         length pts = length flat div 7 \<and>
         (\<forall>i < length pts.
            Ds50Time (pts ! i) = flat ! (7 * i) \<and>
            X (pts ! i) = flat ! (7 * i + 1) \<and>
            Y (pts ! i) = flat ! (7 * i + 2) \<and>
            Z (pts ! i) = flat ! (7 * i + 3) \<and>
            Vx (pts ! i) = flat ! (7 * i + 4) \<and>
            Vy (pts ! i) = flat ! (7 * i + 5) \<and>
            Vz (pts ! i) = flat ! (7 * i + 6)))) \<and>
   (length flat < 7 \<or> length flat mod 7 \<noteq> 0 \<longrightarrow>
      (\<exists>e. flatEphemsToEphemDataArr flat = Inl e))"
proof (intro conjI impI)
  assume ok: "7 \<le> length flat \<and> length flat mod 7 = 0"
  then have "flatEphemsToEphemDataArr flat = Inr (map (ephemAt flat) [0..<length flat div 7])"
    by (simp add: flatEphems_ok)
  then show "\<exists>pts. flatEphemsToEphemDataArr flat = Inr pts \<and>
         length pts = length flat div 7 \<and>
         (\<forall>i < length pts.
            Ds50Time (pts ! i) = flat ! (7 * i) \<and>
            X (pts ! i) = flat ! (7 * i + 1) \<and>
            Y (pts ! i) = flat ! (7 * i + 2) \<and>
            Z (pts ! i) = flat ! (7 * i + 3) \<and>
            Vx (pts ! i) = flat ! (7 * i + 4) \<and>
            Vy (pts ! i) = flat ! (7 * i + 5) \<and>
            Vz (pts ! i) = flat ! (7 * i + 6))"
    by (simp add: ephemAt_def Let_def mult.commute)
next
  assume "length flat < 7 \<or> length flat mod 7 \<noteq> 0"
  then show "\<exists>e. flatEphemsToEphemDataArr flat = Inl e"
    by (auto simp: flatEphemsToEphemDataArr_def)
qed

theorem C8_flat_conversion_witness:
  "(\<exists>pts. flatEphemsToEphemDataArr [1, 2, 3, 4, 5, 6, 7, 8, 9, 10, 11, 12, 13, 14] = Inr pts \<and>
      length pts = 2 \<and> Ds50Time (pts ! 1) = 8 \<and> Vz (pts ! 1) = 14) \<and>
   (\<exists>e. flatEphemsToEphemDataArr [1, 2, 3, 4, 5, 6, 7, 8] = Inl e)"
proof -
  have a: "\<exists>pts. flatEphemsToEphemDataArr [1, 2, 3, 4, 5, 6, 7, 8, 9, 10, 11, 12, 13, 14] = Inr pts \<and>
      length pts = 2 \<and> Ds50Time (pts ! 1) = 8 \<and> Vz (pts ! 1) = 14"
    using C8_flat_conversion [of "[1, 2, 3, 4, 5, 6, 7, 8, 9, 10, 11, 12, 13, 14]"]
    by fastforce
  have b: "\<exists>e. flatEphemsToEphemDataArr [1, 2, 3, 4, 5, 6, 7, 8] = Inl e"
    using C8_flat_conversion [of "[1, 2, 3, 4, 5, 6, 7, 8]"] by simp
  from a b show ?thesis by simp
qed

end
